theory Spec2Isabelle
  imports Main
begin

section \<open>Data model\<close>

text \<open>
  The controller \<^verbatim>\<open>backend/src/controllers/user.controller.js\<close> works on two
  collections of a document store, \<^verbatim>\<open>User\<close> and \<^verbatim>\<open>FriendRequest\<close>. An identity
  (\<^verbatim>\<open>_id\<close>, \<^verbatim>\<open>req.user.id\<close>, \<^verbatim>\<open>req.params.id\<close>) is modelled by its string form; the
  caller's \<^verbatim>\<open>req.user.id\<close> is the string form of a stored identity, the route parameter
  is any string. A collection is the list of its documents in the store's natural order.
\<close>

type_synonym oid = string

datatype status = Pending | Accepted

text \<open>
  The fields of a user document that the controller reads, selects or updates.
\<close>

record user =
  user_id :: oid
  fullName :: string
  profilePic :: string
  nativeLanguage :: string
  learningLanguage :: string
  isOnboarded :: bool
  friends :: "oid list"

text \<open>
  A friend request. The two references are type parameters: a stored request holds two
  identities, a populated one holds the expanded document (or null) in their place.
\<close>

record ('s, 'r) friend_request =
  request_id :: oid
  sender :: 's
  recipient :: 'r
  status :: status

type_synonym stored_request = "(oid, oid) friend_request"

record db =
  users :: "user list"
  requests :: "stored_request list"

text \<open>The projections \<^verbatim>\<open>select("fullName profilePic nativeLanguage learningLanguage")\<close>
  and \<^verbatim>\<open>select: "fullName profilePic"\<close>; the identity is always part of a projection.\<close>

record user_summary =
  s_id :: oid
  s_fullName :: string
  s_profilePic :: string
  s_nativeLanguage :: string
  s_learningLanguage :: string

record user_brief =
  b_id :: oid
  b_fullName :: string
  b_profilePic :: string

definition summary :: "user \<Rightarrow> user_summary" where
  "summary u = \<lparr>s_id = user_id u, s_fullName = fullName u, s_profilePic = profilePic u,
     s_nativeLanguage = nativeLanguage u, s_learningLanguage = learningLanguage u\<rparr>"

definition brief :: "user \<Rightarrow> user_brief" where
  "brief u = \<lparr>b_id = user_id u, b_fullName = fullName u, b_profilePic = profilePic u\<rparr>"

section \<open>Store primitives\<close>

text \<open>
  The queries the controller issues. \<^verbatim>\<open>findById\<close> and \<^verbatim>\<open>findOne\<close> give the first
  matching document or null; \<^verbatim>\<open>find\<close> gives all matching documents.
\<close>

definition User_findById :: "oid \<Rightarrow> db \<Rightarrow> user option" where
  "User_findById i d = find (\<lambda>u. user_id u = i) (users d)"

definition User_find :: "(user \<Rightarrow> bool) \<Rightarrow> db \<Rightarrow> user list" where
  "User_find q d = filter q (users d)"

definition FriendRequest_findById :: "oid \<Rightarrow> db \<Rightarrow> stored_request option" where
  "FriendRequest_findById i d = find (\<lambda>r. request_id r = i) (requests d)"

definition FriendRequest_findOne :: "(stored_request \<Rightarrow> bool) \<Rightarrow> db \<Rightarrow> stored_request option" where
  "FriendRequest_findOne q d = find q (requests d)"

definition FriendRequest_find :: "(stored_request \<Rightarrow> bool) \<Rightarrow> db \<Rightarrow> stored_request list" where
  "FriendRequest_find q d = filter q (requests d)"

text \<open>An update of one document: the first that matches is changed, no document is
  created when none matches.\<close>

fun update_first :: "('a \<Rightarrow> bool) \<Rightarrow> ('a \<Rightarrow> 'a) \<Rightarrow> 'a list \<Rightarrow> 'a list" where
  "update_first p f [] = []"
| "update_first p f (x # xs) = (if p x then f x # xs else x # update_first p f xs)"

text \<open>\<^verbatim>\<open>$addToSet\<close>: the value is appended unless the array holds it already.\<close>

definition addToSet :: "'a \<Rightarrow> 'a list \<Rightarrow> 'a list" where
  "addToSet x xs = (if x \<in> set xs then xs else xs @ [x])"

definition User_findByIdAndUpdate_addToSet_friends :: "oid \<Rightarrow> oid \<Rightarrow> db \<Rightarrow> db" where
  "User_findByIdAndUpdate_addToSet_friends i x d =
     d\<lparr>users := update_first (\<lambda>u. user_id u = i)
                   (\<lambda>u. u\<lparr>friends := addToSet x (friends u)\<rparr>) (users d)\<rparr>"

text \<open>\<^verbatim>\<open>friendRequest.save()\<close> after the assignment to \<^verbatim>\<open>status\<close>: the modified path
  is written to the stored document of that identity.\<close>

definition FriendRequest_save :: "stored_request \<Rightarrow> db \<Rightarrow> db" where
  "FriendRequest_save fr d =
     d\<lparr>requests := update_first (\<lambda>r. request_id r = request_id fr)
                      (\<lambda>r. r\<lparr>status := status fr\<rparr>) (requests d)\<rparr>"

text \<open>Modelled from the spec: the schema of \<^verbatim>\<open>models/FriendRequest.js\<close> is not among the
  sources; the specification gives \<^verbatim>\<open>pending\<close> as the initial state of a request, which
  is the status a document created without one receives.\<close>

definition default_status :: status where
  "default_status = Pending"

definition new_request :: "oid \<Rightarrow> oid \<Rightarrow> oid \<Rightarrow> stored_request" where
  "new_request i s r = \<lparr>request_id = i, sender = s, recipient = r, status = default_status\<rparr>"

definition FriendRequest_insert :: "stored_request \<Rightarrow> db \<Rightarrow> db" where
  "FriendRequest_insert fr d = d\<lparr>requests := requests d @ [fr]\<rparr>"

text \<open>\<^verbatim>\<open>populate\<close> of one reference with a \<^verbatim>\<open>match\<close> and a \<^verbatim>\<open>select\<close>: the referenced
  document in the projection, or null when no document of that identity satisfies the
  match.\<close>

definition populate :: "(user \<Rightarrow> bool) \<Rightarrow> (user \<Rightarrow> 'a) \<Rightarrow> db \<Rightarrow> oid \<Rightarrow> 'a option" where
  "populate m sel d i = map_option sel (find (\<lambda>u. user_id u = i \<and> m u) (users d))"

text \<open>\<^verbatim>\<open>populate\<close> of an array of references: the documents found, in the array's order.\<close>

definition populate_array :: "(user \<Rightarrow> 'a) \<Rightarrow> db \<Rightarrow> oid list \<Rightarrow> 'a list" where
  "populate_array sel d ids = List.map_filter (populate (\<lambda>_. True) sel d) ids"

section \<open>Responses, sessions and transactions\<close>

datatype body =
    Message string
  | UserList "user_summary list"
  | CreatedRequest stored_request
  | FriendRequests "(user_summary option, oid) friend_request list"
                   "(user_brief option, user_brief option) friend_request list"
  | OutgoingRequests "(oid, user_summary option) friend_request list"

datatype event =
    StartSession
  | StartTransaction
  | CommitTransaction
  | AbortTransaction
  | EndSession
  | ConsoleError string
  | Respond nat body

text \<open>
  The state a handler runs in: the committed store, the working copy of the open
  transaction (if any), and the effects so far in program order. Reads and writes made
  through the session act on the working copy; \<^verbatim>\<open>commitTransaction\<close> installs it,
  \<^verbatim>\<open>abortTransaction\<close> and \<^verbatim>\<open>endSession\<close> discard it.
\<close>

record world =
  committed :: db
  txn :: "db option"
  trace :: "event list"

definition emit :: "event \<Rightarrow> world \<Rightarrow> world" where
  "emit e w = w\<lparr>trace := trace w @ [e]\<rparr>"

definition init :: "db \<Rightarrow> world" where
  "init d = \<lparr>committed = d, txn = None, trace = []\<rparr>"

definition startSession :: "world \<Rightarrow> world" where
  "startSession w = emit StartSession w"

definition startTransaction :: "world \<Rightarrow> world" where
  "startTransaction w = emit StartTransaction (w\<lparr>txn := Some (committed w)\<rparr>)"

definition commitTransaction :: "world \<Rightarrow> world" where
  "commitTransaction w =
     emit CommitTransaction
       (w\<lparr>committed := (case txn w of Some d \<Rightarrow> d | None \<Rightarrow> committed w), txn := None\<rparr>)"

definition abortTransaction :: "world \<Rightarrow> world" where
  "abortTransaction w = emit AbortTransaction (w\<lparr>txn := None\<rparr>)"

definition endSession :: "world \<Rightarrow> world" where
  "endSession w = emit EndSession (w\<lparr>txn := None\<rparr>)"

definition view :: "world \<Rightarrow> db" where
  "view w = (case txn w of Some d \<Rightarrow> d | None \<Rightarrow> committed w)"

definition session_write :: "(db \<Rightarrow> db) \<Rightarrow> world \<Rightarrow> world" where
  "session_write f w = (case txn w of Some d \<Rightarrow> w\<lparr>txn := Some (f d)\<rparr>
                            | None \<Rightarrow> w\<lparr>committed := f (committed w)\<rparr>)"

definition respond :: "nat \<Rightarrow> body \<Rightarrow> world \<Rightarrow> world" where
  "respond c b w = emit (Respond c b) w"

definition console_error :: "string \<Rightarrow> world \<Rightarrow> world" where
  "console_error s w = emit (ConsoleError s) w"

fun responses :: "event list \<Rightarrow> (nat \<times> body) list" where
  "responses [] = []"
| "responses (Respond c b # es) = (c, b) # responses es"
| "responses (_ # es) = responses es"

definition response :: "world \<Rightarrow> (nat \<times> body) list" where
  "response w = responses (trace w)"

text \<open>How the body of a \<^verbatim>\<open>try\<close> block ends: normally (it fell through or returned), or
  with a thrown exception.\<close>

datatype completion = Normal | Thrown


text \<open>
  A store call can fail (the connection drops, a write conflicts): the handlers take an
  oracle \<open>fault\<close>, and the \<open>n\<close>-th store call a handler awaits inside its \<^verbatim>\<open>try\<close>
  block, counted from 0 in program order, throws exactly when \<open>fault n\<close> holds. A call
  that throws has no effect.
\<close>

type_synonym faults = "nat \<Rightarrow> bool"

definition no_fault :: faults where
  "no_fault = (\<lambda>_. False)"

section \<open>The handlers\<close>

subsection \<open>getRecommendedUsers\<close>

definition getRecommendedUsers :: "faults \<Rightarrow> oid \<Rightarrow> db \<Rightarrow> world" where
  "getRecommendedUsers fault currentUserId d =
     (let w = init d;
          catch = (\<lambda>w. respond 500 (Message ''Server error'')
                          (console_error ''Error in getRecommendedUsers'' w))
      in if fault 0 then catch w
         else (case User_findById currentUserId (view w) of
             None \<Rightarrow> respond 404 (Message ''User not found'') w
           | Some currentUser \<Rightarrow>
               (let friendIds = friends currentUser @ [currentUserId]
                in if fault 1 then catch w
                   else (let recommendedUsers =
                               map summary
                                 (User_find (\<lambda>u. user_id u \<notin> set friendIds \<and> isOnboarded u)
                                    (view w))
                         in respond 200 (UserList recommendedUsers) w))))"

subsection \<open>getMyFriends\<close>

definition getMyFriends :: "faults \<Rightarrow> oid \<Rightarrow> db \<Rightarrow> world" where
  "getMyFriends fault userId d =
     (let w = init d
      in if fault 0
         then respond 500 (Message ''Server error'') (console_error ''Error in getMyFriends'' w)
         else (case User_findById userId (view w) of
             None \<Rightarrow> respond 404 (Message ''User not found'') w
           | Some u \<Rightarrow>
               respond 200 (UserList (populate_array summary (view w) (friends u))) w))"

subsection \<open>sendFriendRequest\<close>

text \<open>
  \<open>isValid\<close> stands for \<^verbatim>\<open>mongoose.Types.ObjectId.isValid\<close>, a format check of the
  library. \<open>newId\<close> is the identity the store gives the created document; the store
  refuses a second document of an identity that is taken.
\<close>

text \<open>The filter of the query for an existing request:
  \<^verbatim>\<open>$or: [{sender: myId, recipient: recipientId}, {sender: recipientId, recipient: myId}]\<close>.\<close>

definition either_direction :: "oid \<Rightarrow> oid \<Rightarrow> stored_request \<Rightarrow> bool" where
  "either_direction a b r =
     ((sender r = a \<and> recipient r = b) \<or> (sender r = b \<and> recipient r = a))"

definition sendFriendRequest_try ::
  "(string \<Rightarrow> bool) \<Rightarrow> faults \<Rightarrow> oid \<Rightarrow> oid \<Rightarrow> string \<Rightarrow> world \<Rightarrow> completion \<times> world" where
  "sendFriendRequest_try isValid fault newId myId recipientId w =
     (if \<not> isValid recipientId
      then (Normal, respond 400 (Message ''Invalid user ID'') w)
      else if myId = recipientId
      then (Normal, respond 400 (Message ''Cannot send request to yourself'') w)
      else if fault 0 \<or> fault 1 then (Thrown, w)
      else (case (User_findById myId (view w), User_findById recipientId (view w)) of
          (Some currentUser, Some recipientUser) \<Rightarrow>
            if recipientId \<in> set (friends currentUser) \<or> myId \<in> set (friends recipientUser)
            then (Normal, respond 400 (Message ''Already friends'') w)
            else if fault 2 then (Thrown, w)
            else (case FriendRequest_findOne (either_direction myId recipientId) (view w) of
                Some existingRequest \<Rightarrow>
                  (Normal, respond 400
                     (Message (if status existingRequest = Pending
                               then ''Request already pending''
                               else ''Already connected'')) w)
              | None \<Rightarrow>
                  if fault 3 \<or> FriendRequest_findById newId (view w) \<noteq> None
                  then (Thrown, w)
                  else (let friendRequest = new_request newId myId recipientId;
                            w1 = session_write (FriendRequest_insert friendRequest) w
                        in if fault 4 then (Thrown, w1)
                           else (Normal, respond 201 (CreatedRequest friendRequest)
                                           (commitTransaction w1))))
        | _ \<Rightarrow> (Normal, respond 404 (Message ''User not found'') w)))"

definition sendFriendRequest ::
  "(string \<Rightarrow> bool) \<Rightarrow> faults \<Rightarrow> oid \<Rightarrow> oid \<Rightarrow> string \<Rightarrow> db \<Rightarrow> world" where
  "sendFriendRequest isValid fault newId myId recipientId d =
     (let w = startTransaction (startSession (init d))
      in endSession
           (case sendFriendRequest_try isValid fault newId myId recipientId w of
              (Normal, w') \<Rightarrow> w'
            | (Thrown, w') \<Rightarrow>
                respond 500 (Message ''Server error'')
                  (console_error ''Error in sendFriendRequest'' (abortTransaction w'))))"

subsection \<open>acceptFriendRequest\<close>

text \<open>The two friend-set updates are awaited together: each one that does not throw is
  applied, and the wait throws if either did.\<close>

definition acceptFriendRequest_try ::
  "(string \<Rightarrow> bool) \<Rightarrow> faults \<Rightarrow> oid \<Rightarrow> string \<Rightarrow> world \<Rightarrow> completion \<times> world" where
  "acceptFriendRequest_try isValid fault userId requestId w =
     (if \<not> isValid requestId
      then (Normal, respond 400 (Message ''Invalid request ID'') w)
      else if fault 0 then (Thrown, w)
      else (case FriendRequest_findById requestId (view w) of
          None \<Rightarrow> (Normal, respond 404 (Message ''Request not found'') w)
        | Some friendRequest \<Rightarrow>
            if recipient friendRequest \<noteq> userId
            then (Normal, respond 403 (Message ''Unauthorized'') w)
            else if status friendRequest \<noteq> Pending
            then (Normal, respond 400 (Message ''Request already processed'') w)
            else if fault 1 then (Thrown, w)
            else (let accepted = friendRequest\<lparr>status := Accepted\<rparr>;
                      w1 = session_write (FriendRequest_save accepted) w;
                      w2 = (if fault 2 then w1
                            else session_write
                                   (User_findByIdAndUpdate_addToSet_friends
                                      (sender accepted) (recipient accepted)) w1);
                      w3 = (if fault 3 then w2
                            else session_write
                                   (User_findByIdAndUpdate_addToSet_friends
                                      (recipient accepted) (sender accepted)) w2)
                  in if fault 2 \<or> fault 3 then (Thrown, w3)
                     else if fault 4 then (Thrown, w3)
                     else (Normal, respond 200 (Message ''Request accepted'')
                                     (commitTransaction w3)))))"

definition acceptFriendRequest ::
  "(string \<Rightarrow> bool) \<Rightarrow> faults \<Rightarrow> oid \<Rightarrow> string \<Rightarrow> db \<Rightarrow> world" where
  "acceptFriendRequest isValid fault userId requestId d =
     (let w = startTransaction (startSession (init d))
      in endSession
           (case acceptFriendRequest_try isValid fault userId requestId w of
              (Normal, w') \<Rightarrow> w'
            | (Thrown, w') \<Rightarrow>
                respond 500 (Message ''Server error'')
                  (console_error ''Error in acceptFriendRequest'' (abortTransaction w'))))"

subsection \<open>getFriendRequests\<close>

definition incomingReqs :: "oid \<Rightarrow> db \<Rightarrow> (user_summary option, oid) friend_request list" where
  "incomingReqs userId d =
     map (\<lambda>r. \<lparr>request_id = request_id r,
               sender = populate (\<lambda>_. True) summary d (sender r),
               recipient = recipient r, status = status r\<rparr>)
       (FriendRequest_find (\<lambda>r. recipient r = userId \<and> status r = Pending) d)"

definition acceptedReqs ::
  "oid \<Rightarrow> db \<Rightarrow> (user_brief option, user_brief option) friend_request list" where
  "acceptedReqs userId d =
     map (\<lambda>r. \<lparr>request_id = request_id r,
               sender = populate (\<lambda>u. user_id u \<noteq> userId) brief d (sender r),
               recipient = populate (\<lambda>u. user_id u \<noteq> userId) brief d (recipient r),
               status = status r\<rparr>)
       (FriendRequest_find (\<lambda>r. (sender r = userId \<and> status r = Accepted) \<or>
                                (recipient r = userId \<and> status r = Accepted)) d)"

definition filteredAcceptedReqs ::
  "oid \<Rightarrow> db \<Rightarrow> (user_brief option, user_brief option) friend_request list" where
  "filteredAcceptedReqs userId d =
     filter (\<lambda>req. sender req \<noteq> None \<and> recipient req \<noteq> None) (acceptedReqs userId d)"

definition getFriendRequests :: "faults \<Rightarrow> oid \<Rightarrow> db \<Rightarrow> world" where
  "getFriendRequests fault userId d =
     (let w = init d
      in if fault 0 \<or> fault 1
         then respond 500 (Message ''Server error'')
                (console_error ''Error in getFriendRequests'' w)
         else respond 200
                (FriendRequests (incomingReqs userId (view w))
                   (filteredAcceptedReqs userId (view w))) w)"

subsection \<open>getOutgoingFriendReqs\<close>

definition getOutgoingFriendReqs :: "faults \<Rightarrow> oid \<Rightarrow> db \<Rightarrow> world" where
  "getOutgoingFriendReqs fault userId d =
     (let w = init d
      in if fault 0
         then respond 500 (Message ''Server error'')
                (console_error ''Error in getOutgoingFriendReqs'' w)
         else (let outgoingRequests =
                     map (\<lambda>r. \<lparr>request_id = request_id r, sender = sender r,
                               recipient = populate (\<lambda>_. True) summary (view w) (recipient r),
                               status = status r\<rparr>)
                       (FriendRequest_find (\<lambda>r. sender r = userId \<and> status r = Pending)
                          (view w))
               in respond 200 (OutgoingRequests outgoingRequests) w))"

subsection \<open>Sequences of calls\<close>

text \<open>A call of the service: the handler, the caller's identity (\<^verbatim>\<open>req.user.id\<close>) and
  the route parameter, with the faults of its store calls and, for a creation, the
  identity the store assigns.\<close>

datatype call =
    GetRecommendedUsers faults oid
  | GetMyFriends faults oid
  | SendFriendRequest faults oid oid string
  | AcceptFriendRequest faults oid string
  | GetFriendRequests faults oid
  | GetOutgoingFriendReqs faults oid

fun handle :: "(string \<Rightarrow> bool) \<Rightarrow> call \<Rightarrow> db \<Rightarrow> world" where
  "handle isValid (GetRecommendedUsers fault u) d = getRecommendedUsers fault u d"
| "handle isValid (GetMyFriends fault u) d = getMyFriends fault u d"
| "handle isValid (SendFriendRequest fault newId u r) d = sendFriendRequest isValid fault newId u r d"
| "handle isValid (AcceptFriendRequest fault u r) d = acceptFriendRequest isValid fault u r d"
| "handle isValid (GetFriendRequests fault u) d = getFriendRequests fault u d"
| "handle isValid (GetOutgoingFriendReqs fault u) d = getOutgoingFriendReqs fault u d"

fun run :: "(string \<Rightarrow> bool) \<Rightarrow> call list \<Rightarrow> db \<Rightarrow> db" where
  "run isValid [] d = d"
| "run isValid (c # cs) d = run isValid cs (committed (handle isValid c d))"

section \<open>The theme store\<close>

text \<open>
  \<^verbatim>\<open>frontend/src/store/useThemeStore.js\<close>. \<^verbatim>\<open>localStorage\<close> maps keys to strings;
  \<^verbatim>\<open>getItem\<close> gives null for an absent key. The operator \<^verbatim>\<open>||\<close> yields its right
  operand when the left one is null or the empty string.
\<close>

type_synonym storage = "string \<rightharpoonup> string"

record theme_store =
  localStorage :: storage
  theme :: string

definition getItem :: "storage \<Rightarrow> string \<Rightarrow> string option" where
  "getItem ls k = ls k"

definition setItem :: "string \<Rightarrow> string \<Rightarrow> storage \<Rightarrow> storage" where
  "setItem k v ls = ls(k \<mapsto> v)"

definition js_or :: "string option \<Rightarrow> string \<Rightarrow> string" where
  "js_or a b = (case a of None \<Rightarrow> b | Some v \<Rightarrow> if v = [] then b else v)"

definition useThemeStore :: "storage \<Rightarrow> theme_store" where
  "useThemeStore ls = \<lparr>localStorage = ls, theme = js_or (getItem ls ''ChatApp'') ''forest''\<rparr>"

definition setTheme :: "string \<Rightarrow> theme_store \<Rightarrow> theme_store" where
  "setTheme t s = s\<lparr>localStorage := setItem ''ChatApp'' t (localStorage s), theme := t\<rparr>"


section \<open>Derived notions\<close>

text \<open>The friend set of an identity in a store: that of its record, empty when the
  store has no record of it.\<close>

definition friends_of :: "db \<Rightarrow> oid \<Rightarrow> oid list" where
  "friends_of d i = (case User_findById i d of None \<Rightarrow> [] | Some u \<Rightarrow> friends u)"

text \<open>The three writes of \<^verbatim>\<open>acceptFriendRequest\<close> for a request \<open>fr\<close>, in program
  order.\<close>

definition accept_effect :: "stored_request \<Rightarrow> db \<Rightarrow> db" where
  "accept_effect fr d =
     User_findByIdAndUpdate_addToSet_friends (recipient fr) (sender fr)
       (User_findByIdAndUpdate_addToSet_friends (sender fr) (recipient fr)
          (FriendRequest_save (fr\<lparr>status := Accepted\<rparr>) d))"

section \<open>Example stores\<close>

text \<open>The format every release of the library accepts as an identity: 24 hexadecimal
  digits. It instantiates \<open>isValid\<close> in the examples.\<close>

definition hex24 :: "string \<Rightarrow> bool" where
  "hex24 s = (length s = 24 \<and> list_all (\<lambda>c. c \<in> set ''0123456789abcdefABCDEF'') s)"

definition alice :: oid where "alice = ''64f1a0000000000000000001''"

definition bob :: oid where "bob = ''64f1a0000000000000000002''"

definition carol :: oid where "carol = ''64f1a0000000000000000003''"

definition req1 :: oid where "req1 = ''64f1b0000000000000000001''"

definition req2 :: oid where "req2 = ''64f1b0000000000000000002''"

definition member_doc :: "oid \<Rightarrow> string \<Rightarrow> bool \<Rightarrow> oid list \<Rightarrow> user" where
  "member_doc i n ob fs = \<lparr>user_id = i, fullName = n, profilePic = ''avatar.png'',
     nativeLanguage = ''english'', learningLanguage = ''spanish'', isOnboarded = ob, friends = fs\<rparr>"

definition request_doc :: "oid \<Rightarrow> oid \<Rightarrow> oid \<Rightarrow> status \<Rightarrow> stored_request" where
  "request_doc i s r st = \<lparr>request_id = i, sender = s, recipient = r, status = st\<rparr>"

text \<open>Three users and no request; Alice has sent Bob a request; Bob has accepted it;
  the pending request after Alice's record was removed; after Bob's was removed too.\<close>

definition db_strangers :: db where
  "db_strangers = \<lparr>users = [member_doc alice ''Alice'' True [], member_doc bob ''Bob'' True [],
                            member_doc carol ''Carol'' False []],
                   requests = []\<rparr>"

definition db_pending :: db where
  "db_pending = \<lparr>users = [member_doc alice ''Alice'' True [], member_doc bob ''Bob'' True [],
                          member_doc carol ''Carol'' False []],
                 requests = [request_doc req1 alice bob Pending]\<rparr>"

definition db_friends :: db where
  "db_friends = \<lparr>users = [member_doc alice ''Alice'' True [bob], member_doc bob ''Bob'' True [alice],
                          member_doc carol ''Carol'' False []],
                 requests = [request_doc req1 alice bob Accepted]\<rparr>"

definition db_orphan :: db where
  "db_orphan = \<lparr>users = [member_doc bob ''Bob'' True [], member_doc carol ''Carol'' False []],
                requests = [request_doc req1 alice bob Pending]\<rparr>"

definition db_ghosts :: db where
  "db_ghosts = \<lparr>users = [member_doc carol ''Carol'' False []],
                requests = [request_doc req1 alice bob Pending]\<rparr>"

text \<open>The pending request after Bob's record alone was removed.\<close>

definition db_widow :: db where
  "db_widow = \<lparr>users = [member_doc alice ''Alice'' True [], member_doc carol ''Carol'' False []],
               requests = [request_doc req1 alice bob Pending]\<rparr>"

text \<open>An accepted request between two users of whom neither friend set holds the other.\<close>

definition db_estranged :: db where
  "db_estranged = \<lparr>users = [member_doc alice ''Alice'' True [], member_doc bob ''Bob'' True []],
                   requests = [request_doc req1 alice bob Accepted]\<rparr>"

definition dave :: oid where "dave = ''64f1a0000000000000000004''"

text \<open>The oracle under which exactly the \<open>k\<close>-th store call throws.\<close>

definition fault_at :: "nat \<Rightarrow> faults" where
  "fault_at k = (\<lambda>n. n = k)"

text \<open>
  The string form the store gives an identity (\<^verbatim>\<open>toString\<close>): 24 lower-case hexadecimal
  digits. The identities held in the store are in this form. A route parameter in this form
  is cast by the library to the identity of that very string form, so the store's lookup
  by the parameter is the lookup by string equality of the model. Other strings that pass
  the format check (upper-case digits, twelve-character strings) are cast to an identity
  with a different string form, which the model does not follow: a theorem that rests on
  a lookup by a route parameter finding nothing assumes the parameter canonical.

  Likewise a commit that itself fails is followed in the model like any other failing
  store call, whereas the driver refuses the rollback of a transaction whose commit was
  attempted: no theorem below states the response or the trace of a call whose commit
  fails (they assume \<open>\<not> fault 4\<close>, or a response that only a successful commit gives,
  or concern calls that end before the commit).
\<close>

definition canonical :: "string \<Rightarrow> bool" where
  "canonical s = (length s = 24 \<and> list_all (\<lambda>c. c \<in> set ''0123456789abcdef'') s)"

section \<open>Notions the theorems are stated with\<close>

text \<open>The world a handler with a session leaves when its committed store is \<open>d\<close> and its
  effects between the start of the transaction and the end of the session were \<open>es\<close>.\<close>

definition finished :: "db \<Rightarrow> event list \<Rightarrow> world" where
  "finished d es = \<lparr>committed = d, txn = None,
                     trace = [StartSession, StartTransaction] @ es @ [EndSession]\<rparr>"

text \<open>At most one request per unordered pair of users.\<close>

definition one_per_pair :: "db \<Rightarrow> bool" where
  "one_per_pair d = distinct (map (\<lambda>r. {sender r, recipient r}) (requests d))"

text \<open>
  What one call may do to the collection of requests: nothing; add one request, pending,
  at the end (only \<^verbatim>\<open>sendFriendRequest\<close>); or turn one pending request into an accepted
  one (only \<^verbatim>\<open>acceptFriendRequest\<close> called by the recipient of that request).
\<close>

definition lifecycle_step :: "call \<Rightarrow> stored_request list \<Rightarrow> stored_request list \<Rightarrow> bool" where
  "lifecycle_step c rs rs' \<longleftrightarrow>
     rs' = rs
     \<or> (\<exists>fault newId myId recipientId r.
           c = SendFriendRequest fault newId myId recipientId \<and> status r = Pending \<and> rs' = rs @ [r])
     \<or> (\<exists>fault userId requestId i.
           c = AcceptFriendRequest fault userId requestId \<and> i < length rs \<and>
           recipient (rs ! i) = userId \<and> status (rs ! i) = Pending \<and>
           rs' = rs[i := (rs ! i)\<lparr>status := Accepted\<rparr>])"

text \<open>
  Every request of \<open>rs\<close> is still in \<open>rs'\<close> at its place, with its identity, sender and
  recipient, and accepted if it was accepted.
\<close>

definition survives :: "stored_request list \<Rightarrow> stored_request list \<Rightarrow> bool" where
  "survives rs rs' \<longleftrightarrow>
     length rs \<le> length rs' \<and>
     list_all2 (\<lambda>r r'. request_id r' = request_id r \<and> sender r' = sender r \<and>
                        recipient r' = recipient r \<and>
                        (status r = Accepted \<longrightarrow> status r' = Accepted))
       rs (take (length rs) rs')"

section \<open>Unfolding rules\<close>

lemmas world_defs = init_def emit_def startSession_def startTransaction_def commitTransaction_def
  abortTransaction_def endSession_def view_def session_write_def respond_def console_error_def
  response_def

lemmas handler_defs = sendFriendRequest_def sendFriendRequest_try_def acceptFriendRequest_def
  acceptFriendRequest_try_def getRecommendedUsers_def getMyFriends_def getFriendRequests_def
  getOutgoingFriendReqs_def

lemmas store_defs = User_findById_def User_find_def FriendRequest_findById_def
  FriendRequest_findOne_def FriendRequest_find_def addToSet_def
  User_findByIdAndUpdate_addToSet_friends_def FriendRequest_save_def default_status_def
  new_request_def FriendRequest_insert_def populate_def populate_array_def either_direction_def

lemmas example_defs = hex24_def alice_def bob_def carol_def req1_def req2_def member_doc_def
  request_doc_def db_strangers_def db_pending_def db_friends_def db_orphan_def db_ghosts_def
  db_widow_def db_estranged_def dave_def no_fault_def fault_at_def canonical_def

text \<open>The example stores arise from one another by the handlers.\<close>

lemma db_pending_reached:
  "committed (sendFriendRequest hex24 no_fault req1 alice bob db_strangers) = db_pending"
  by (simp add: example_defs handler_defs store_defs world_defs Let_def)

lemma db_friends_reached:
  "run hex24 [SendFriendRequest no_fault req1 alice bob, AcceptFriendRequest no_fault bob req1]
     db_strangers = db_friends"
  by (simp add: example_defs handler_defs store_defs world_defs Let_def)

section \<open>Updates and lookups\<close>

lemma update_first_no_match: "find p xs = None \<Longrightarrow> update_first p f xs = xs"
  by (induction xs) (auto split: if_splits)

lemma find_update_first_same:
  "(\<And>x. q (f x) = q x) \<Longrightarrow> find q (update_first q f xs) = map_option f (find q xs)"
  by (induction xs) auto

lemma find_update_first_other:
  "(\<And>x. p x \<Longrightarrow> \<not> q x \<and> \<not> q (f x)) \<Longrightarrow> find q (update_first p f xs) = find q xs"
  by (induction xs) auto

lemma User_findById_update:
  "User_findById a (User_findByIdAndUpdate_addToSet_friends b x d) =
     (if a = b then map_option (\<lambda>u. u\<lparr>friends := addToSet x (friends u)\<rparr>) (User_findById a d)
      else User_findById a d)"
proof (cases "a = b")
  case True
  then show ?thesis
    by (simp add: User_findById_def User_findByIdAndUpdate_addToSet_friends_def find_update_first_same)
next
  case False
  then have "find (\<lambda>u. user_id u = a) (update_first (\<lambda>u. user_id u = b) (\<lambda>u. u\<lparr>friends := addToSet x (friends u)\<rparr>) (users d))
     = find (\<lambda>u. user_id u = a) (users d)"
    by (intro find_update_first_other) auto
  with False show ?thesis
    by (simp add: User_findById_def User_findByIdAndUpdate_addToSet_friends_def)
qed

lemma friends_of_update:
  "friends_of (User_findByIdAndUpdate_addToSet_friends b x d) a =
     (if a = b \<and> User_findById a d \<noteq> None then addToSet x (friends_of d a) else friends_of d a)"
  by (auto simp: friends_of_def User_findById_update split: option.splits)

lemma requests_update [simp]: "requests (User_findByIdAndUpdate_addToSet_friends b x d) = requests d"
  by (simp add: User_findByIdAndUpdate_addToSet_friends_def)

lemma users_save [simp]: "users (FriendRequest_save fr d) = users d"
  by (simp add: FriendRequest_save_def)

lemma FriendRequest_findById_update [simp]:
  "FriendRequest_findById i (User_findByIdAndUpdate_addToSet_friends b x d) = FriendRequest_findById i d"
  by (simp add: FriendRequest_findById_def)

lemma User_findById_save [simp]: "User_findById i (FriendRequest_save fr d) = User_findById i d"
  by (simp add: User_findById_def)

lemma friends_of_save [simp]: "friends_of (FriendRequest_save fr d) i = friends_of d i"
  by (simp add: friends_of_def)

lemma find_Some_key: "find p xs = Some y \<Longrightarrow> p y"
  by (induction xs) (auto split: if_splits)

lemma FriendRequest_findById_save:
  "FriendRequest_findById i d = Some fr \<Longrightarrow>
   FriendRequest_findById i (FriendRequest_save (fr\<lparr>status := s\<rparr>) d) = Some (fr\<lparr>status := s\<rparr>)"
proof -
  assume a: "FriendRequest_findById i d = Some fr"
  then have k: "request_id fr = i"
    using find_Some_key[of "\<lambda>r. request_id r = i" "requests d" fr] by (simp add: FriendRequest_findById_def)
  have "find (\<lambda>r. request_id r = i) (update_first (\<lambda>r. request_id r = i) (\<lambda>r. r\<lparr>status := s\<rparr>) (requests d))
      = map_option (\<lambda>r. r\<lparr>status := s\<rparr>) (find (\<lambda>r. request_id r = i) (requests d))"
    by (rule find_update_first_same) simp
  with a k show ?thesis by (simp add: FriendRequest_findById_def FriendRequest_save_def)
qed

lemma accept_cases:
  "response (acceptFriendRequest isValid fault userId requestId d) = [(200, Message ''Request accepted'')] \<longleftrightarrow>
     isValid requestId \<and> \<not> fault 0 \<and> \<not> fault 1 \<and> \<not> fault 2 \<and> \<not> fault 3 \<and> \<not> fault 4 \<and>
     (\<exists>fr. FriendRequest_findById requestId d = Some fr \<and> recipient fr = userId \<and> status fr = Pending)"
  by (auto simp add: acceptFriendRequest_def acceptFriendRequest_try_def world_defs Let_def split: option.splits if_splits)

lemma accept_committed:
  "isValid requestId \<Longrightarrow> \<not> fault 0 \<Longrightarrow> \<not> fault 1 \<Longrightarrow> \<not> fault 2 \<Longrightarrow> \<not> fault 3 \<Longrightarrow> \<not> fault 4 \<Longrightarrow>
   FriendRequest_findById requestId d = Some fr \<Longrightarrow> recipient fr = userId \<Longrightarrow> status fr = Pending \<Longrightarrow>
   committed (acceptFriendRequest isValid fault userId requestId d) = accept_effect fr d"
  by (simp add: acceptFriendRequest_def acceptFriendRequest_try_def world_defs Let_def accept_effect_def)

lemma set_addToSet [simp]: "set (addToSet x xs) = insert x (set xs)"
  by (auto simp: addToSet_def)

lemma addToSet_present: "x \<in> set xs \<Longrightarrow> addToSet x xs = xs"
  by (simp add: addToSet_def)

lemma accept_effect_request:
  "FriendRequest_findById i d = Some fr \<Longrightarrow>
   FriendRequest_findById i (accept_effect fr d) = Some (fr\<lparr>status := Accepted\<rparr>)"
  by (simp add: accept_effect_def FriendRequest_findById_save)

lemma accept_effect_sender:
  "User_findById (sender fr) d \<noteq> None \<Longrightarrow>
   set (friends_of (accept_effect fr d) (sender fr)) = insert (recipient fr) (set (friends_of d (sender fr)))"
  by (auto simp add: accept_effect_def friends_of_update User_findById_update)

lemma accept_effect_recipient:
  "User_findById (recipient fr) d \<noteq> None \<Longrightarrow>
   set (friends_of (accept_effect fr d) (recipient fr)) = insert (sender fr) (set (friends_of d (recipient fr)))"
  by (auto simp add: accept_effect_def friends_of_update User_findById_update)

lemma accept_effect_sender_noop:
  "recipient fr \<in> set (friends_of d (sender fr)) \<Longrightarrow>
   friends_of (accept_effect fr d) (sender fr) = friends_of d (sender fr)"
  by (auto simp add: accept_effect_def friends_of_update User_findById_update addToSet_present)

lemma accept_effect_recipient_noop:
  "sender fr \<in> set (friends_of d (recipient fr)) \<Longrightarrow>
   friends_of (accept_effect fr d) (recipient fr) = friends_of d (recipient fr)"
  by (auto simp add: accept_effect_def friends_of_update User_findById_update addToSet_present)


section \<open>Accepting a request\<close>

text \<open>
  C1 (as amended). For a request whose sender and recipient both have a user record, a
  successful \<^verbatim>\<open>acceptFriendRequest\<close> (response 200) leaves the request stored with
  status accepted, makes the sender's friend set the old one with the recipient's identity
  added and the recipient's the old one with the sender's added, leaves a friend set that
  held the identity already as it was, and afterwards each party is in the other's friend
  set.
\<close>

theorem acceptFriendRequest_success:
  assumes ok: "response (acceptFriendRequest isValid fault userId requestId d) =
                 [(200, Message ''Request accepted'')]"
      and fr: "FriendRequest_findById requestId d = Some fr"
      and su: "User_findById (sender fr) d \<noteq> None"
      and ru: "User_findById (recipient fr) d \<noteq> None"
  defines "d' \<equiv> committed (acceptFriendRequest isValid fault userId requestId d)"
  shows "FriendRequest_findById requestId d' = Some (fr\<lparr>status := Accepted\<rparr>)
       \<and> set (friends_of d' (sender fr)) = insert (recipient fr) (set (friends_of d (sender fr)))
       \<and> set (friends_of d' (recipient fr)) = insert (sender fr) (set (friends_of d (recipient fr)))
       \<and> (recipient fr \<in> set (friends_of d (sender fr)) \<longrightarrow>
            friends_of d' (sender fr) = friends_of d (sender fr))
       \<and> (sender fr \<in> set (friends_of d (recipient fr)) \<longrightarrow>
            friends_of d' (recipient fr) = friends_of d (recipient fr))
       \<and> recipient fr \<in> set (friends_of d' (sender fr))
       \<and> sender fr \<in> set (friends_of d' (recipient fr))"
proof -
  from ok fr have c: "isValid requestId" "\<not> fault 0" "\<not> fault 1" "\<not> fault 2" "\<not> fault 3" "\<not> fault 4"
    "recipient fr = userId" "status fr = Pending"
    by (simp_all add: accept_cases)
  then have d': "d' = accept_effect fr d"
    unfolding d'_def using fr by (intro accept_committed)
  show ?thesis
    unfolding d'
    using accept_effect_request[OF fr] accept_effect_sender[OF su] accept_effect_recipient[OF ru]
      accept_effect_sender_noop[of fr d] accept_effect_recipient_noop[of fr d]
    by simp
qed

theorem acceptFriendRequest_success_witness:
  "response (acceptFriendRequest hex24 no_fault bob req1 db_pending) = [(200, Message ''Request accepted'')]
   \<and> FriendRequest_findById req1 db_pending = Some (request_doc req1 alice bob Pending)
   \<and> FriendRequest_findById req1 (committed (acceptFriendRequest hex24 no_fault bob req1 db_pending))
       = Some (request_doc req1 alice bob Accepted)
   \<and> bob \<in> set (friends_of (committed (acceptFriendRequest hex24 no_fault bob req1 db_pending)) alice)
   \<and> alice \<in> set (friends_of (committed (acceptFriendRequest hex24 no_fault bob req1 db_pending)) bob)"
proof -
  have ok: "response (acceptFriendRequest hex24 no_fault bob req1 db_pending) = [(200, Message ''Request accepted'')]"
    by (simp add: example_defs handler_defs store_defs world_defs Let_def)
  have fr: "FriendRequest_findById req1 db_pending = Some (request_doc req1 alice bob Pending)"
    by (simp add: example_defs store_defs)
  have su: "User_findById (sender (request_doc req1 alice bob Pending)) db_pending \<noteq> None"
    by (simp add: example_defs store_defs)
  have ru: "User_findById (recipient (request_doc req1 alice bob Pending)) db_pending \<noteq> None"
    by (simp add: example_defs store_defs)
  from acceptFriendRequest_success[OF ok fr su ru] ok fr show ?thesis
    by (simp add: request_doc_def)
qed

text \<open>
  As stated for every pending request, C1 fails where the sender's record is gone: the
  acceptance succeeds and no friend set of the sender holds the recipient.
\<close>

theorem acceptFriendRequest_symmetry_counterexample:
  "FriendRequest_findById req1 db_orphan = Some (request_doc req1 alice bob Pending)
   \<and> response (acceptFriendRequest hex24 no_fault bob req1 db_orphan) = [(200, Message ''Request accepted'')]
   \<and> bob \<notin> set (friends_of (committed (acceptFriendRequest hex24 no_fault bob req1 db_orphan)) alice)"
  by (simp add: example_defs handler_defs store_defs world_defs Let_def friends_of_def)

text \<open>
  C9. For a pending request accepted by its recipient, with a well-formed request identity
  and no store call failing, \<^verbatim>\<open>acceptFriendRequest\<close> answers 200 and the request
  becomes accepted whether or not the two user records exist. An identity without a
  record still has none afterwards and the update for it changes nothing; a party whose
  record exists gains the other party's identity in its friend set, so with one record
  missing exactly the other friend set is updated, and with both records missing the user
  collection is unchanged.
\<close>

theorem acceptFriendRequest_missing_user:
  assumes v: "isValid requestId"
      and nf: "\<not> fault 0" "\<not> fault 1" "\<not> fault 2" "\<not> fault 3" "\<not> fault 4"
      and fr: "FriendRequest_findById requestId d = Some fr"
      and rc: "recipient fr = userId"
      and st: "status fr = Pending"
  defines "w \<equiv> acceptFriendRequest isValid fault userId requestId d"
  shows "response w = [(200, Message ''Request accepted'')]
       \<and> FriendRequest_findById requestId (committed w) = Some (fr\<lparr>status := Accepted\<rparr>)
       \<and> (User_findById (sender fr) d = None \<longrightarrow>
            User_findById (sender fr) (committed w) = None
            \<and> users (committed w) = users (User_findByIdAndUpdate_addToSet_friends userId (sender fr) d))
       \<and> (User_findById userId d = None \<longrightarrow>
            User_findById userId (committed w) = None
            \<and> users (committed w) = users (User_findByIdAndUpdate_addToSet_friends (sender fr) userId d))
       \<and> (User_findById (sender fr) d = None \<and> User_findById userId d = None \<longrightarrow>
            users (committed w) = users d)
       \<and> (User_findById userId d \<noteq> None \<longrightarrow>
            set (friends_of (committed w) userId) = insert (sender fr) (set (friends_of d userId))
            \<and> sender fr \<in> set (friends_of (committed w) userId))
       \<and> (User_findById (sender fr) d \<noteq> None \<longrightarrow>
            set (friends_of (committed w) (sender fr)) = insert userId (set (friends_of d (sender fr)))
            \<and> userId \<in> set (friends_of (committed w) (sender fr)))
       \<and> (User_findById (sender fr) d = None \<longrightarrow> friends_of (committed w) (sender fr) = [])
       \<and> (User_findById userId d = None \<longrightarrow> friends_of (committed w) userId = [])"
proof -
  have r: "response w = [(200, Message ''Request accepted'')]"
    unfolding w_def using v nf fr rc st by (simp add: accept_cases)
  have c: "committed w = accept_effect fr d"
    unfolding w_def using v nf fr rc st by (intro accept_committed)
  have q: "FriendRequest_findById requestId (committed w) = Some (fr\<lparr>status := Accepted\<rparr>)"
    unfolding c by (rule accept_effect_request[OF fr])
  have n: "User_findById i d = None \<Longrightarrow>
             users (User_findByIdAndUpdate_addToSet_friends i x e) = users e" if "users e = users d" for i x e
    using that by (simp add: User_findById_def User_findByIdAndUpdate_addToSet_friends_def update_first_no_match)
  have k: "User_findById i (accept_effect fr d) = None" if "User_findById i d = None" for i
    using that by (auto simp add: accept_effect_def User_findById_update)
  have s: "users (committed w) = users (User_findByIdAndUpdate_addToSet_friends userId (sender fr) d)"
    if "User_findById (sender fr) d = None"
    using that rc n[of "FriendRequest_save (fr\<lparr>status := Accepted\<rparr>) d" "sender fr" userId]
    by (simp add: c accept_effect_def User_findByIdAndUpdate_addToSet_friends_def)
  have t: "users (committed w) = users (User_findByIdAndUpdate_addToSet_friends (sender fr) userId d)"
    if "User_findById userId d = None"
  proof -
    let ?e = "User_findByIdAndUpdate_addToSet_friends (sender fr) userId (FriendRequest_save (fr\<lparr>status := Accepted\<rparr>) d)"
    have "User_findById userId ?e = None"
      using that by (auto simp add: User_findById_update)
    then have "users (User_findByIdAndUpdate_addToSet_friends userId (sender fr) ?e) = users ?e"
      by (simp add: User_findById_def User_findByIdAndUpdate_addToSet_friends_def update_first_no_match)
    then show ?thesis
      using rc by (simp add: c accept_effect_def User_findByIdAndUpdate_addToSet_friends_def)
  qed
  have b: "users (committed w) = users d"
    if "User_findById (sender fr) d = None" "User_findById userId d = None"
    using s[OF that(1)] that(2)
    by (simp add: User_findById_def User_findByIdAndUpdate_addToSet_friends_def update_first_no_match)
  have g: "set (friends_of (committed w) userId) = insert (sender fr) (set (friends_of d userId))"
    if "User_findById userId d \<noteq> None"
    using accept_effect_recipient[of fr d] that rc by (simp add: c)
  have h: "set (friends_of (committed w) (sender fr)) = insert userId (set (friends_of d (sender fr)))"
    if "User_findById (sender fr) d \<noteq> None"
    using accept_effect_sender[of fr d] that rc by (simp add: c)
  have e: "friends_of (committed w) i = []" if "User_findById i d = None" for i
    using k[OF that] by (simp add: c friends_of_def)
  have 3: "User_findById (sender fr) d = None \<longrightarrow>
            User_findById (sender fr) (committed w) = None
            \<and> users (committed w) = users (User_findByIdAndUpdate_addToSet_friends userId (sender fr) d)"
    using k s by (simp add: c)
  have 4: "User_findById userId d = None \<longrightarrow>
            User_findById userId (committed w) = None
            \<and> users (committed w) = users (User_findByIdAndUpdate_addToSet_friends (sender fr) userId d)"
    using k t by (simp add: c)
  have 6: "User_findById userId d \<noteq> None \<longrightarrow>
            set (friends_of (committed w) userId) = insert (sender fr) (set (friends_of d userId))
            \<and> sender fr \<in> set (friends_of (committed w) userId)"
    using g by simp
  have 7: "User_findById (sender fr) d \<noteq> None \<longrightarrow>
            set (friends_of (committed w) (sender fr)) = insert userId (set (friends_of d (sender fr)))
            \<and> userId \<in> set (friends_of (committed w) (sender fr))"
    using h by simp
  from r q 3 4 b 6 7 e show ?thesis by blast
qed

theorem acceptFriendRequest_missing_user_witness:
  "response (acceptFriendRequest hex24 no_fault bob req1 db_orphan) = [(200, Message ''Request accepted'')]
   \<and> User_findById alice db_orphan = None
   \<and> User_findById alice (committed (acceptFriendRequest hex24 no_fault bob req1 db_orphan)) = None
   \<and> FriendRequest_findById req1 (committed (acceptFriendRequest hex24 no_fault bob req1 db_orphan))
       = Some (request_doc req1 alice bob Accepted)
   \<and> friends_of db_orphan bob = []
   \<and> set (friends_of (committed (acceptFriendRequest hex24 no_fault bob req1 db_orphan)) bob) = {alice}
   \<and> friends_of (committed (acceptFriendRequest hex24 no_fault bob req1 db_orphan)) bob = [alice]
   \<and> friends_of (committed (acceptFriendRequest hex24 no_fault bob req1 db_orphan)) alice = []
   \<and> User_findById bob db_widow = None
   \<and> response (acceptFriendRequest hex24 no_fault bob req1 db_widow) = [(200, Message ''Request accepted'')]
   \<and> friends_of db_widow alice = []
   \<and> set (friends_of (committed (acceptFriendRequest hex24 no_fault bob req1 db_widow)) alice) = {bob}
   \<and> friends_of (committed (acceptFriendRequest hex24 no_fault bob req1 db_widow)) alice = [bob]
   \<and> friends_of (committed (acceptFriendRequest hex24 no_fault bob req1 db_widow)) bob = []
   \<and> User_findById alice db_ghosts = None \<and> User_findById bob db_ghosts = None
   \<and> response (acceptFriendRequest hex24 no_fault bob req1 db_ghosts) = [(200, Message ''Request accepted'')]
   \<and> users (committed (acceptFriendRequest hex24 no_fault bob req1 db_ghosts)) = users db_ghosts"
proof -
  have v: "hex24 req1" by (simp add: example_defs)
  have nf: "\<not> no_fault 0" "\<not> no_fault 1" "\<not> no_fault 2" "\<not> no_fault 3" "\<not> no_fault 4"
    by (simp_all add: no_fault_def)
  have fr: "FriendRequest_findById req1 db_orphan = Some (request_doc req1 alice bob Pending)"
    by (simp add: example_defs store_defs)
  have fr': "FriendRequest_findById req1 db_ghosts = Some (request_doc req1 alice bob Pending)"
    by (simp add: example_defs store_defs)
  have fr'': "FriendRequest_findById req1 db_widow = Some (request_doc req1 alice bob Pending)"
    by (simp add: example_defs store_defs)
  have rc: "recipient (request_doc req1 alice bob Pending) = bob" by (simp add: request_doc_def)
  have sn: "sender (request_doc req1 alice bob Pending) = alice" by (simp add: request_doc_def)
  have st: "status (request_doc req1 alice bob Pending) = Pending" by (simp add: request_doc_def)
  have a: "User_findById alice db_orphan = None" "User_findById alice db_ghosts = None"
        "User_findById bob db_ghosts = None" "User_findById bob db_widow = None"
    by (simp_all add: example_defs store_defs)
  have p: "User_findById bob db_orphan \<noteq> None" "User_findById alice db_widow \<noteq> None"
    by (simp_all add: example_defs store_defs)
  have z: "friends_of db_orphan bob = []" "friends_of db_widow alice = []"
    by (simp_all add: example_defs store_defs friends_of_def)
  note o = acceptFriendRequest_missing_user[where isValid = hex24 and fault = no_fault,
             OF v nf fr rc st, unfolded sn]
  note g = acceptFriendRequest_missing_user[where isValid = hex24 and fault = no_fault,
             OF v nf fr' rc st, unfolded sn]
  note u = acceptFriendRequest_missing_user[where isValid = hex24 and fault = no_fault,
             OF v nf fr'' rc st, unfolded sn]
  from o have o1: "response (acceptFriendRequest hex24 no_fault bob req1 db_orphan) =
                     [(200, Message ''Request accepted'')]"
    by blast
  from o a have o2: "User_findById alice (committed (acceptFriendRequest hex24 no_fault bob req1 db_orphan)) = None"
    by blast
  from o have "FriendRequest_findById req1 (committed (acceptFriendRequest hex24 no_fault bob req1 db_orphan))
                 = Some ((request_doc req1 alice bob Pending)\<lparr>status := Accepted\<rparr>)"
    by blast
  then have o3: "FriendRequest_findById req1 (committed (acceptFriendRequest hex24 no_fault bob req1 db_orphan))
                   = Some (request_doc req1 alice bob Accepted)"
    by (simp add: request_doc_def)
  from o p have "set (friends_of (committed (acceptFriendRequest hex24 no_fault bob req1 db_orphan)) bob)
                   = insert alice (set (friends_of db_orphan bob))"
    by blast
  then have o4: "set (friends_of (committed (acceptFriendRequest hex24 no_fault bob req1 db_orphan)) bob) = {alice}"
    by (simp add: z)
  from o a have o5: "friends_of (committed (acceptFriendRequest hex24 no_fault bob req1 db_orphan)) alice = []"
    by blast
  have o6: "friends_of (committed (acceptFriendRequest hex24 no_fault bob req1 db_orphan)) bob = [alice]"
    by (simp add: example_defs handler_defs store_defs world_defs Let_def friends_of_def)
  from u have u1: "response (acceptFriendRequest hex24 no_fault bob req1 db_widow) =
                     [(200, Message ''Request accepted'')]"
    by blast
  from u p have "set (friends_of (committed (acceptFriendRequest hex24 no_fault bob req1 db_widow)) alice)
                   = insert bob (set (friends_of db_widow alice))"
    by blast
  then have u2: "set (friends_of (committed (acceptFriendRequest hex24 no_fault bob req1 db_widow)) alice) = {bob}"
    by (simp add: z)
  from u a have u3: "friends_of (committed (acceptFriendRequest hex24 no_fault bob req1 db_widow)) bob = []"
    by blast
  have u4: "friends_of (committed (acceptFriendRequest hex24 no_fault bob req1 db_widow)) alice = [bob]"
    by (simp add: example_defs handler_defs store_defs world_defs Let_def friends_of_def)
  from g have g1: "response (acceptFriendRequest hex24 no_fault bob req1 db_ghosts) =
                     [(200, Message ''Request accepted'')]"
    by blast
  from g a have g2: "users (committed (acceptFriendRequest hex24 no_fault bob req1 db_ghosts)) = users db_ghosts"
    by blast
  from o1 o2 o3 o4 o5 o6 u1 u2 u3 u4 g1 g2 a z show ?thesis by blast
qed

section \<open>The handlers with a session, case by case\<close>

text \<open>Each handler written as one cascade over the store it starts from.\<close>

lemma sendFriendRequest_flat:
  "sendFriendRequest isValid fault newId myId recipientId d =
     (if \<not> isValid recipientId then finished d [Respond 400 (Message ''Invalid user ID'')]
      else if myId = recipientId
      then finished d [Respond 400 (Message ''Cannot send request to yourself'')]
      else if fault 0 \<or> fault 1
      then finished d [AbortTransaction, ConsoleError ''Error in sendFriendRequest'',
                       Respond 500 (Message ''Server error'')]
      else if User_findById myId d = None \<or> User_findById recipientId d = None
      then finished d [Respond 404 (Message ''User not found'')]
      else if recipientId \<in> set (friends_of d myId) \<or> myId \<in> set (friends_of d recipientId)
      then finished d [Respond 400 (Message ''Already friends'')]
      else if fault 2
      then finished d [AbortTransaction, ConsoleError ''Error in sendFriendRequest'',
                       Respond 500 (Message ''Server error'')]
      else (case FriendRequest_findOne (either_direction myId recipientId) d of
          Some existing \<Rightarrow>
            finished d [Respond 400 (Message (if status existing = Pending
                                              then ''Request already pending''
                                              else ''Already connected''))]
        | None \<Rightarrow>
            if fault 3 \<or> FriendRequest_findById newId d \<noteq> None \<or> fault 4
            then finished d [AbortTransaction, ConsoleError ''Error in sendFriendRequest'',
                             Respond 500 (Message ''Server error'')]
            else finished (FriendRequest_insert (new_request newId myId recipientId) d)
                   [CommitTransaction,
                    Respond 201 (CreatedRequest (new_request newId myId recipientId))]))"
proof (cases "User_findById myId d")
  case None
  then show ?thesis
    by (simp add: sendFriendRequest_def sendFriendRequest_try_def world_defs Let_def finished_def)
next
  case cu: (Some cu)
  show ?thesis
  proof (cases "User_findById recipientId d")
    case None
    with cu show ?thesis
      by (simp add: sendFriendRequest_def sendFriendRequest_try_def world_defs Let_def finished_def)
  next
    case ru: (Some ru)
    show ?thesis
    proof (cases "FriendRequest_findOne (either_direction myId recipientId) d")
      case None
      with cu ru show ?thesis
        by (simp add: sendFriendRequest_def sendFriendRequest_try_def world_defs Let_def
              finished_def friends_of_def)
    next
      case (Some ex)
      with cu ru show ?thesis
        by (simp add: sendFriendRequest_def sendFriendRequest_try_def world_defs Let_def
              finished_def friends_of_def)
    qed
  qed
qed

lemmas send_flat = sendFriendRequest_flat finished_def response_def

lemma acceptFriendRequest_flat:
  "acceptFriendRequest isValid fault userId requestId d =
     (if \<not> isValid requestId then finished d [Respond 400 (Message ''Invalid request ID'')]
      else if fault 0
      then finished d [AbortTransaction, ConsoleError ''Error in acceptFriendRequest'',
                       Respond 500 (Message ''Server error'')]
      else (case FriendRequest_findById requestId d of
          None \<Rightarrow> finished d [Respond 404 (Message ''Request not found'')]
        | Some fr \<Rightarrow>
            if recipient fr \<noteq> userId then finished d [Respond 403 (Message ''Unauthorized'')]
            else if status fr \<noteq> Pending
            then finished d [Respond 400 (Message ''Request already processed'')]
            else if fault 1 \<or> fault 2 \<or> fault 3 \<or> fault 4
            then finished d [AbortTransaction, ConsoleError ''Error in acceptFriendRequest'',
                             Respond 500 (Message ''Server error'')]
            else finished (accept_effect fr d)
                   [CommitTransaction, Respond 200 (Message ''Request accepted'')]))"
proof (cases "FriendRequest_findById requestId d")
  case None
  then show ?thesis
    by (simp add: acceptFriendRequest_def acceptFriendRequest_try_def world_defs Let_def finished_def)
next
  case (Some fr)
  then show ?thesis
    by (simp add: acceptFriendRequest_def acceptFriendRequest_try_def world_defs Let_def
          finished_def accept_effect_def)
qed

lemmas accept_flat = acceptFriendRequest_flat finished_def response_def

lemma sendFriendRequest_committed:
  "committed (sendFriendRequest isValid fault newId myId recipientId d) = d \<or>
   FriendRequest_findOne (either_direction myId recipientId) d = None \<and>
   committed (sendFriendRequest isValid fault newId myId recipientId d) =
     FriendRequest_insert (new_request newId myId recipientId) d"
  by (cases "FriendRequest_findOne (either_direction myId recipientId) d")
     (simp_all add: sendFriendRequest_flat finished_def)

lemma acceptFriendRequest_committed:
  "committed (acceptFriendRequest isValid fault userId requestId d) = d \<or>
   (\<exists>fr. FriendRequest_findById requestId d = Some fr \<and> recipient fr = userId \<and>
         status fr = Pending \<and>
         committed (acceptFriendRequest isValid fault userId requestId d) = accept_effect fr d)"
  by (cases "FriendRequest_findById requestId d")
     (simp_all add: acceptFriendRequest_flat finished_def)

lemma read_only:
  "committed (getRecommendedUsers fault u d) = d"
  "committed (getMyFriends fault u d) = d"
  "committed (getFriendRequests fault u d) = d"
  "committed (getOutgoingFriendReqs fault u d) = d"
  by (simp_all add: getRecommendedUsers_def getMyFriends_def getFriendRequests_def
        getOutgoingFriendReqs_def world_defs Let_def split: option.splits)

lemma update_first_nth:
  "find p xs = Some y \<Longrightarrow> \<exists>i<length xs. xs ! i = y \<and> update_first p f xs = xs[i := f y]"
proof (induction xs)
  case Nil
  then show ?case by simp
next
  case (Cons x xs)
  show ?case
  proof (cases "p x")
    case True
    with Cons.prems have "x = y" by simp
    with True show ?thesis by (intro exI[of _ 0]) simp
  next
    case False
    with Cons.prems have "find p xs = Some y" by simp
    from Cons.IH[OF this] obtain i where "i < length xs" "xs ! i = y"
      "update_first p f xs = xs[i := f y]" by blast
    with False show ?thesis by (intro exI[of _ "Suc i"]) simp
  qed
qed

lemma accept_effect_requests:
  assumes "FriendRequest_findById requestId d = Some fr"
  shows "\<exists>i<length (requests d). requests d ! i = fr \<and>
           requests (accept_effect fr d) = (requests d)[i := fr\<lparr>status := Accepted\<rparr>]"
proof -
  from assms have k: "request_id fr = requestId"
    using find_Some_key[of "\<lambda>r. request_id r = requestId" "requests d" fr]
    by (simp add: FriendRequest_findById_def)
  from assms have "find (\<lambda>r. request_id r = requestId) (requests d) = Some fr"
    by (simp add: FriendRequest_findById_def)
  from update_first_nth[OF this, of "\<lambda>r. r\<lparr>status := Accepted\<rparr>"] k
  show ?thesis
    by (simp add: accept_effect_def FriendRequest_save_def)
qed

section \<open>The preconditions of sendFriendRequest\<close>



section \<open>A request that exists already\<close>

lemma either_direction_pair:
  "either_direction a b r \<longleftrightarrow> {sender r, recipient r} = {a, b}"
  by (auto simp: either_direction_def doubleton_eq_iff)

lemma one_per_pair_insert:
  assumes "one_per_pair d" "FriendRequest_findOne (either_direction a b) d = None"
  shows "one_per_pair (FriendRequest_insert (new_request n a b) d)"
proof -
  from assms(2) have "\<forall>r \<in> set (requests d). {sender r, recipient r} \<noteq> {a, b}"
    by (simp add: FriendRequest_findOne_def find_None_iff either_direction_pair)
  with assms(1) show ?thesis
    by (auto simp: one_per_pair_def FriendRequest_insert_def new_request_def)
qed

lemma sendFriendRequest_one_per_pair:
  "one_per_pair d \<Longrightarrow> one_per_pair (committed (sendFriendRequest isValid fault newId myId recipientId d))"
  using sendFriendRequest_committed[of isValid fault newId myId recipientId d]
  by (auto simp: one_per_pair_insert)

lemma accept_effect_one_per_pair:
  assumes "one_per_pair d" "FriendRequest_findById requestId d = Some fr"
  shows "one_per_pair (accept_effect fr d)"
proof -
  from accept_effect_requests[OF assms(2)] obtain i where
    i: "i < length (requests d)" "requests d ! i = fr"
       "requests (accept_effect fr d) = (requests d)[i := fr\<lparr>status := Accepted\<rparr>]"
    by blast
  have "map (\<lambda>r. {sender r, recipient r}) ((requests d)[i := fr\<lparr>status := Accepted\<rparr>]) =
        map (\<lambda>r. {sender r, recipient r}) (requests d)"
    using i(1,2) by (simp add: list_eq_iff_nth_eq nth_list_update)
  with assms(1) i(3) show ?thesis by (simp add: one_per_pair_def)
qed

lemma handle_one_per_pair:
  assumes "one_per_pair d"
  shows "one_per_pair (committed (handle isValid c d))"
proof (cases c)
  case (SendFriendRequest fault newId myId recipientId)
  with assms show ?thesis by (simp add: sendFriendRequest_one_per_pair)
next
  case (AcceptFriendRequest fault userId requestId)
  with assms acceptFriendRequest_committed[of isValid fault userId requestId d]
  show ?thesis by (auto simp: accept_effect_one_per_pair)
qed (simp_all add: assms read_only)

lemma run_one_per_pair: "one_per_pair d \<Longrightarrow> one_per_pair (run isValid cs d)"
  by (induction cs arbitrary: d) (simp_all add: handle_one_per_pair)

text \<open>
  As stated, C3 fails after the ordinary course of events: Alice's request to Bob was
  accepted, both are in each other's friend set, and a second request is answered
  "Already friends", not "Already connected".
\<close>

theorem sendFriendRequest_existing_counterexample:
  "FriendRequest_findOne (either_direction alice bob) db_friends =
     Some (request_doc req1 alice bob Accepted)
   \<and> status (request_doc req1 alice bob Accepted) = Accepted
   \<and> response (sendFriendRequest hex24 no_fault req2 alice bob db_friends) =
       [(400, Message ''Already friends'')]"
  by (simp add: sendFriendRequest_flat finished_def response_def example_defs store_defs friends_of_def)

text \<open>
  C3 (as amended). When a request between the two users exists already, in either direction
  and with any status, \<^verbatim>\<open>sendFriendRequest\<close> stores nothing. With both user records
  present (and the lookups not failing) the answer is 400: "Already friends" when a friend
  set of either holds the other, and otherwise "Request already pending" when the existing
  request is pending and "Already connected" if not. No call, and no sequence of calls of
  the service, ever stores a second request for an unordered pair: at most one request per
  pair is an invariant.
\<close>

theorem sendFriendRequest_existing:
  fixes isValid fault newId myId recipientId d
  defines "w \<equiv> sendFriendRequest isValid fault newId myId recipientId d"
  shows "(FriendRequest_findOne (either_direction myId recipientId) d = Some existing \<longrightarrow>
            committed w = d
            \<and> (isValid recipientId \<and> myId \<noteq> recipientId \<and> \<not> fault 0 \<and> \<not> fault 1 \<and>
                User_findById myId d \<noteq> None \<and> User_findById recipientId d \<noteq> None \<and>
                (recipientId \<in> set (friends_of d myId) \<or> myId \<in> set (friends_of d recipientId)) \<longrightarrow>
                response w = [(400, Message ''Already friends'')])
            \<and> (isValid recipientId \<and> myId \<noteq> recipientId \<and> \<not> fault 0 \<and> \<not> fault 1 \<and>
                User_findById myId d \<noteq> None \<and> User_findById recipientId d \<noteq> None \<and>
                recipientId \<notin> set (friends_of d myId) \<and> myId \<notin> set (friends_of d recipientId) \<and>
                \<not> fault 2 \<longrightarrow>
                response w = [(400, Message (if status existing = Pending
                                             then ''Request already pending''
                                             else ''Already connected''))]))
       \<and> (one_per_pair d \<longrightarrow>
            one_per_pair (committed w) \<and> one_per_pair (run isValid calls d))"
proof -
  have 1: "committed w = d"
    if "FriendRequest_findOne (either_direction myId recipientId) d = Some existing"
    using that by (simp add: w_def sendFriendRequest_flat finished_def)
  have 2: "isValid recipientId \<and> myId \<noteq> recipientId \<and> \<not> fault 0 \<and> \<not> fault 1 \<and>
            User_findById myId d \<noteq> None \<and> User_findById recipientId d \<noteq> None \<and>
            (recipientId \<in> set (friends_of d myId) \<or> myId \<in> set (friends_of d recipientId)) \<longrightarrow>
            response w = [(400, Message ''Already friends'')]"
    by (simp add: w_def send_flat)
  have 3: "isValid recipientId \<and> myId \<noteq> recipientId \<and> \<not> fault 0 \<and> \<not> fault 1 \<and>
            User_findById myId d \<noteq> None \<and> User_findById recipientId d \<noteq> None \<and>
            recipientId \<notin> set (friends_of d myId) \<and> myId \<notin> set (friends_of d recipientId) \<and>
            \<not> fault 2 \<longrightarrow>
            response w = [(400, Message (if status existing = Pending
                                         then ''Request already pending''
                                         else ''Already connected''))]"
    if "FriendRequest_findOne (either_direction myId recipientId) d = Some existing"
    using that by (simp add: w_def send_flat)
  have 4: "one_per_pair d \<longrightarrow>
             one_per_pair (committed w) \<and> one_per_pair (run isValid calls d)"
    by (simp add: w_def sendFriendRequest_one_per_pair run_one_per_pair)
  show ?thesis
  proof (rule conjI[OF _ 4], rule impI)
    assume e: "FriendRequest_findOne (either_direction myId recipientId) d = Some existing"
    show "committed w = d
            \<and> (isValid recipientId \<and> myId \<noteq> recipientId \<and> \<not> fault 0 \<and> \<not> fault 1 \<and>
                User_findById myId d \<noteq> None \<and> User_findById recipientId d \<noteq> None \<and>
                (recipientId \<in> set (friends_of d myId) \<or> myId \<in> set (friends_of d recipientId)) \<longrightarrow>
                response w = [(400, Message ''Already friends'')])
            \<and> (isValid recipientId \<and> myId \<noteq> recipientId \<and> \<not> fault 0 \<and> \<not> fault 1 \<and>
                User_findById myId d \<noteq> None \<and> User_findById recipientId d \<noteq> None \<and>
                recipientId \<notin> set (friends_of d myId) \<and> myId \<notin> set (friends_of d recipientId) \<and>
                \<not> fault 2 \<longrightarrow>
                response w = [(400, Message (if status existing = Pending
                                             then ''Request already pending''
                                             else ''Already connected''))])"
      by (rule conjI[OF 1[OF e] conjI[OF 2 3[OF e]]])
  qed
qed

theorem sendFriendRequest_existing_witness:
  "FriendRequest_findOne (either_direction bob alice) db_pending =
     Some (request_doc req1 alice bob Pending)
   \<and> response (sendFriendRequest hex24 no_fault req2 bob alice db_pending) =
       [(400, Message ''Request already pending'')]
   \<and> committed (sendFriendRequest hex24 no_fault req2 bob alice db_pending) = db_pending
   \<and> FriendRequest_findOne (either_direction alice bob) db_estranged =
       Some (request_doc req1 alice bob Accepted)
   \<and> response (sendFriendRequest hex24 no_fault req2 alice bob db_estranged) =
       [(400, Message ''Already connected'')]
   \<and> committed (sendFriendRequest hex24 no_fault req2 alice bob db_estranged) = db_estranged
   \<and> response (sendFriendRequest hex24 no_fault req2 alice bob db_friends) =
       [(400, Message ''Already friends'')]
   \<and> committed (sendFriendRequest hex24 no_fault req2 alice bob db_friends) = db_friends
   \<and> one_per_pair db_friends
   \<and> one_per_pair (committed (sendFriendRequest hex24 no_fault req2 alice carol db_friends))
   \<and> one_per_pair (run hex24 [SendFriendRequest no_fault req2 bob alice,
                                 SendFriendRequest no_fault req2 carol bob] db_friends)"
proof -
  have v: "hex24 alice" "hex24 bob"
    by (simp_all add: example_defs)
  have nf: "\<not> no_fault 0" "\<not> no_fault 1" "\<not> no_fault 2"
    by (simp_all add: no_fault_def)
  have ne: "alice \<noteq> bob" "bob \<noteq> alice"
    by (simp_all add: example_defs)
  have u: "User_findById alice db_friends \<noteq> None" "User_findById bob db_friends \<noteq> None"
          "User_findById alice db_pending \<noteq> None" "User_findById bob db_pending \<noteq> None"
          "User_findById alice db_estranged \<noteq> None" "User_findById bob db_estranged \<noteq> None"
    by (simp_all add: example_defs store_defs)
  have f: "bob \<in> set (friends_of db_friends alice)"
          "alice \<notin> set (friends_of db_pending bob)" "bob \<notin> set (friends_of db_pending alice)"
          "alice \<notin> set (friends_of db_estranged bob)" "bob \<notin> set (friends_of db_estranged alice)"
    by (simp_all add: example_defs store_defs friends_of_def)
  have q: "FriendRequest_findOne (either_direction bob alice) db_pending =
             Some (request_doc req1 alice bob Pending)"
          "FriendRequest_findOne (either_direction alice bob) db_estranged =
             Some (request_doc req1 alice bob Accepted)"
          "FriendRequest_findOne (either_direction alice bob) db_friends =
             Some (request_doc req1 alice bob Accepted)"
    by (simp_all add: example_defs store_defs)
  have s: "status (request_doc req1 alice bob Pending) = Pending"
          "status (request_doc req1 alice bob Accepted) \<noteq> Pending"
    by (simp_all add: request_doc_def)
  have o: "one_per_pair db_friends"
    by (simp add: one_per_pair_def example_defs)
  note t = sendFriendRequest_existing[where isValid = hex24 and fault = no_fault and newId = req2]
  from t[where myId = bob and recipientId = alice and d = db_pending
           and existing = "request_doc req1 alice bob Pending"] v nf ne u f q s
  have 1: "response (sendFriendRequest hex24 no_fault req2 bob alice db_pending) =
             [(400, Message ''Request already pending'')]
           \<and> committed (sendFriendRequest hex24 no_fault req2 bob alice db_pending) = db_pending"
    by simp
  from t[where myId = alice and recipientId = bob and d = db_estranged
           and existing = "request_doc req1 alice bob Accepted"] v nf ne u f q s
  have 2: "response (sendFriendRequest hex24 no_fault req2 alice bob db_estranged) =
             [(400, Message ''Already connected'')]
           \<and> committed (sendFriendRequest hex24 no_fault req2 alice bob db_estranged) = db_estranged"
    by simp
  from t[where myId = alice and recipientId = bob and d = db_friends
           and existing = "request_doc req1 alice bob Accepted"] v nf ne u f q s
  have 3: "response (sendFriendRequest hex24 no_fault req2 alice bob db_friends) =
             [(400, Message ''Already friends'')]
           \<and> committed (sendFriendRequest hex24 no_fault req2 alice bob db_friends) = db_friends"
    by simp
  from t[where myId = alice and recipientId = carol and d = db_friends
           and calls = "[SendFriendRequest no_fault req2 bob alice,
                         SendFriendRequest no_fault req2 carol bob]"] o
  have 4: "one_per_pair (committed (sendFriendRequest hex24 no_fault req2 alice carol db_friends))
           \<and> one_per_pair (run hex24 [SendFriendRequest no_fault req2 bob alice,
                                         SendFriendRequest no_fault req2 carol bob] db_friends)"
    by simp
  from 1 2 3 4 q o show ?thesis by simp
qed

section \<open>The transaction of sendFriendRequest\<close>




section \<open>The failures of acceptFriendRequest\<close>

text \<open>
  C5. A call of \<^verbatim>\<open>acceptFriendRequest\<close> that fails a precondition is answered in the
  stated precedence: an ill-formed \<open>requestId\<close> gives 400 "Invalid request ID"; else (the
  lookup not failing) a missing request gives 404; else a caller who is not the request's
  recipient gives 403, whatever the status; else a status other than pending gives 400
  "Request already processed". On each of these failures the store is left as it was, so
  the request's status and every friend set are unchanged.
\<close>

theorem acceptFriendRequest_failures:
  fixes isValid fault userId requestId d
  defines "w \<equiv> acceptFriendRequest isValid fault userId requestId d"
  shows "(\<not> isValid requestId \<longrightarrow>
            response w = [(400, Message ''Invalid request ID'')] \<and> committed w = d)
       \<and> (isValid requestId \<and> canonical requestId \<and> \<not> fault 0 \<and>
            FriendRequest_findById requestId d = None \<longrightarrow>
            response w = [(404, Message ''Request not found'')] \<and> committed w = d)
       \<and> (isValid requestId \<and> \<not> fault 0 \<and> FriendRequest_findById requestId d = Some fr \<and>
            recipient fr \<noteq> userId \<longrightarrow>
            response w = [(403, Message ''Unauthorized'')] \<and> committed w = d)
       \<and> (isValid requestId \<and> \<not> fault 0 \<and> FriendRequest_findById requestId d = Some fr \<and>
            recipient fr = userId \<and> status fr \<noteq> Pending \<longrightarrow>
            response w = [(400, Message ''Request already processed'')] \<and> committed w = d)"
proof -
  have 1: "\<not> isValid requestId \<longrightarrow>
            response w = [(400, Message ''Invalid request ID'')] \<and> committed w = d"
    by (simp add: w_def accept_flat)
  have 2: "isValid requestId \<and> canonical requestId \<and> \<not> fault 0 \<and>
            FriendRequest_findById requestId d = None \<longrightarrow>
            response w = [(404, Message ''Request not found'')] \<and> committed w = d"
    by (simp add: w_def accept_flat)
  have 3: "isValid requestId \<and> \<not> fault 0 \<and> FriendRequest_findById requestId d = Some fr \<and>
            recipient fr \<noteq> userId \<longrightarrow>
            response w = [(403, Message ''Unauthorized'')] \<and> committed w = d"
    by (simp add: w_def accept_flat)
  have 4: "isValid requestId \<and> \<not> fault 0 \<and> FriendRequest_findById requestId d = Some fr \<and>
            recipient fr = userId \<and> status fr \<noteq> Pending \<longrightarrow>
            response w = [(400, Message ''Request already processed'')] \<and> committed w = d"
    by (simp add: w_def accept_flat)
  show ?thesis
    by (rule conjI[OF 1 conjI[OF 2 conjI[OF 3 4]]])
qed

theorem acceptFriendRequest_failures_witness:
  "\<not> hex24 ''not-an-id''
   \<and> response (acceptFriendRequest hex24 no_fault bob ''not-an-id'' db_pending) =
       [(400, Message ''Invalid request ID'')]
   \<and> committed (acceptFriendRequest hex24 no_fault bob ''not-an-id'' db_pending) = db_pending
   \<and> FriendRequest_findById req2 db_pending = None
   \<and> response (acceptFriendRequest hex24 no_fault bob req2 db_pending) =
       [(404, Message ''Request not found'')]
   \<and> committed (acceptFriendRequest hex24 no_fault bob req2 db_pending) = db_pending
   \<and> FriendRequest_findById req1 db_pending = Some (request_doc req1 alice bob Pending)
   \<and> response (acceptFriendRequest hex24 no_fault carol req1 db_pending) =
       [(403, Message ''Unauthorized'')]
   \<and> committed (acceptFriendRequest hex24 no_fault carol req1 db_pending) = db_pending
   \<and> FriendRequest_findById req1 db_friends = Some (request_doc req1 alice bob Accepted)
   \<and> response (acceptFriendRequest hex24 no_fault carol req1 db_friends) =
       [(403, Message ''Unauthorized'')]
   \<and> response (acceptFriendRequest hex24 no_fault bob req1 db_friends) =
       [(400, Message ''Request already processed'')]
   \<and> committed (acceptFriendRequest hex24 no_fault bob req1 db_friends) = db_friends"
proof -
  have v: "\<not> hex24 ''not-an-id''" "hex24 req1" "hex24 req2" "canonical req2" "\<not> no_fault 0"
    by (simp_all add: example_defs)
  have n: "FriendRequest_findById req2 db_pending = None"
    by (simp add: example_defs store_defs)
  have f: "FriendRequest_findById req1 db_friends = Some (request_doc req1 alice bob Accepted)"
          "FriendRequest_findById req1 db_pending = Some (request_doc req1 alice bob Pending)"
    by (simp_all add: example_defs store_defs)
  have r: "recipient (request_doc req1 alice bob Accepted) \<noteq> carol"
          "recipient (request_doc req1 alice bob Pending) \<noteq> carol"
          "recipient (request_doc req1 alice bob Accepted) = bob"
          "status (request_doc req1 alice bob Accepted) \<noteq> Pending"
    by (simp_all add: example_defs)
  note t = acceptFriendRequest_failures[where isValid = hex24 and fault = no_fault]
  from t[where userId = bob and requestId = "''not-an-id''" and d = db_pending] v
  have 1: "response (acceptFriendRequest hex24 no_fault bob ''not-an-id'' db_pending) =
             [(400, Message ''Invalid request ID'')]
           \<and> committed (acceptFriendRequest hex24 no_fault bob ''not-an-id'' db_pending) = db_pending"
    by simp
  from t[where userId = bob and requestId = req2 and d = db_pending] v n
  have 2: "response (acceptFriendRequest hex24 no_fault bob req2 db_pending) =
             [(404, Message ''Request not found'')]
           \<and> committed (acceptFriendRequest hex24 no_fault bob req2 db_pending) = db_pending"
    by simp
  from t[where userId = carol and requestId = req1 and d = db_pending
           and fr = "request_doc req1 alice bob Pending"] v f r
  have 3: "response (acceptFriendRequest hex24 no_fault carol req1 db_pending) =
             [(403, Message ''Unauthorized'')]
           \<and> committed (acceptFriendRequest hex24 no_fault carol req1 db_pending) = db_pending"
    by simp
  from t[where userId = carol and requestId = req1 and d = db_friends
           and fr = "request_doc req1 alice bob Accepted"] v f r
  have 4: "response (acceptFriendRequest hex24 no_fault carol req1 db_friends) =
             [(403, Message ''Unauthorized'')]"
    by simp
  from t[where userId = bob and requestId = req1 and d = db_friends
           and fr = "request_doc req1 alice bob Accepted"] v f r
  have 5: "response (acceptFriendRequest hex24 no_fault bob req1 db_friends) =
             [(400, Message ''Request already processed'')]
           \<and> committed (acceptFriendRequest hex24 no_fault bob req1 db_friends) = db_friends"
    by simp
  from 1 2 3 4 5 v n f show ?thesis by simp
qed

section \<open>Recommended users\<close>

text \<open>
  C7. For a caller whose record exists (and the two queries not failing),
  \<^verbatim>\<open>getRecommendedUsers\<close> answers 200 with the summaries of exactly the onboarded users
  other than the caller and the caller's friends, each once and in the store's order; the
  result holds neither the caller nor any identity of the caller's friend set, and the
  store is unchanged.
\<close>

theorem getRecommendedUsers_exact:
  fixes fault currentUserId d cu
  assumes u: "User_findById currentUserId d = Some cu"
      and nf: "\<not> fault 0" "\<not> fault 1"
  defines "w \<equiv> getRecommendedUsers fault currentUserId d"
  shows "\<exists>rs. response w = [(200, UserList rs)]
            \<and> rs = map (\<lambda>u. \<lparr>s_id = user_id u, s_fullName = fullName u,
                                s_profilePic = profilePic u, s_nativeLanguage = nativeLanguage u,
                                s_learningLanguage = learningLanguage u\<rparr>)
                     (filter (\<lambda>u. isOnboarded u \<and> user_id u \<noteq> currentUserId \<and>
                                   user_id u \<notin> set (friends cu)) (users d))
            \<and> s_id ` set rs = {i. \<exists>u \<in> set (users d). i = user_id u \<and> isOnboarded u \<and>
                                      user_id u \<noteq> currentUserId \<and> user_id u \<notin> set (friends cu)}
            \<and> currentUserId \<notin> s_id ` set rs
            \<and> set (friends cu) \<inter> s_id ` set rs = {}
            \<and> committed w = d"
proof -
  let ?rs = "map summary (filter (\<lambda>u. isOnboarded u \<and> user_id u \<noteq> currentUserId \<and>
                                        user_id u \<notin> set (friends cu)) (users d))"
  have f: "(\<lambda>u. user_id u \<noteq> currentUserId \<and> user_id u \<notin> set (friends cu) \<and> isOnboarded u) =
           (\<lambda>u. isOnboarded u \<and> user_id u \<noteq> currentUserId \<and> user_id u \<notin> set (friends cu))"
    by auto
  have r: "response w = [(200, UserList ?rs)]"
    using u nf
    by (simp add: w_def getRecommendedUsers_def world_defs Let_def User_find_def f)
  have c: "committed w = d"
    using u nf by (simp add: w_def getRecommendedUsers_def world_defs Let_def)
  have e: "?rs = map (\<lambda>u. \<lparr>s_id = user_id u, s_fullName = fullName u,
                               s_profilePic = profilePic u, s_nativeLanguage = nativeLanguage u,
                               s_learningLanguage = learningLanguage u\<rparr>)
                    (filter (\<lambda>u. isOnboarded u \<and> user_id u \<noteq> currentUserId \<and>
                                  user_id u \<notin> set (friends cu)) (users d))"
    by (simp add: summary_def)
  have i: "s_id (summary x) = user_id x" for x
    by (simp add: summary_def)
  have s: "s_id ` set ?rs = {i. \<exists>u \<in> set (users d). i = user_id u \<and> isOnboarded u \<and>
                                   user_id u \<noteq> currentUserId \<and> user_id u \<notin> set (friends cu)}"
    by (auto simp: i image_iff)
  have a: "currentUserId \<notin> s_id ` set ?rs"
    by (auto simp: i)
  have b: "set (friends cu) \<inter> s_id ` set ?rs = {}"
    by (auto simp: i)
  show ?thesis
    by (rule exI[of _ ?rs]) (rule conjI[OF r conjI[OF e conjI[OF s conjI[OF a conjI[OF b c]]]]])
qed

theorem getRecommendedUsers_exact_witness:
  "User_findById alice db_friends = Some (member_doc alice ''Alice'' True [bob])
   \<and> response (getRecommendedUsers no_fault alice db_friends) = [(200, UserList [])]
   \<and> response (getRecommendedUsers no_fault carol db_friends) =
       [(200, UserList [\<lparr>s_id = alice, s_fullName = ''Alice'', s_profilePic = ''avatar.png'',
                           s_nativeLanguage = ''english'', s_learningLanguage = ''spanish''\<rparr>,
                        \<lparr>s_id = bob, s_fullName = ''Bob'', s_profilePic = ''avatar.png'',
                           s_nativeLanguage = ''english'', s_learningLanguage = ''spanish''\<rparr>])]
   \<and> response (getRecommendedUsers no_fault bob db_pending) =
       [(200, UserList [\<lparr>s_id = alice, s_fullName = ''Alice'', s_profilePic = ''avatar.png'',
                           s_nativeLanguage = ''english'', s_learningLanguage = ''spanish''\<rparr>])]"
proof -
  have u: "User_findById alice db_friends = Some (member_doc alice ''Alice'' True [bob])"
          "User_findById carol db_friends = Some (member_doc carol ''Carol'' False [])"
          "User_findById bob db_pending = Some (member_doc bob ''Bob'' True [])"
    by (simp_all add: example_defs store_defs)
  have nf: "\<not> no_fault 0" "\<not> no_fault 1"
    by (simp_all add: no_fault_def)
  from getRecommendedUsers_exact[OF u(1) nf]
  have 1: "response (getRecommendedUsers no_fault alice db_friends) = [(200, UserList [])]"
    by (auto simp add: example_defs)
  from getRecommendedUsers_exact[OF u(2) nf]
  have 2: "response (getRecommendedUsers no_fault carol db_friends) =
       [(200, UserList [\<lparr>s_id = alice, s_fullName = ''Alice'', s_profilePic = ''avatar.png'',
                           s_nativeLanguage = ''english'', s_learningLanguage = ''spanish''\<rparr>,
                        \<lparr>s_id = bob, s_fullName = ''Bob'', s_profilePic = ''avatar.png'',
                           s_nativeLanguage = ''english'', s_learningLanguage = ''spanish''\<rparr>])]"
    by (auto simp add: example_defs)
  from getRecommendedUsers_exact[OF u(3) nf]
  have 3: "response (getRecommendedUsers no_fault bob db_pending) =
       [(200, UserList [\<lparr>s_id = alice, s_fullName = ''Alice'', s_profilePic = ''avatar.png'',
                           s_nativeLanguage = ''english'', s_learningLanguage = ''spanish''\<rparr>])]"
    by (auto simp add: example_defs)
  from 1 2 3 u show ?thesis by simp
qed

section \<open>Accepted requests in getFriendRequests\<close>

text \<open>
  Both expansions carry the match \<^verbatim>\<open>_id: { $ne: userId }\<close>, and every request the query
  returns has the caller as sender or as recipient: the caller's own side never satisfies
  the match, is expanded to null, and the filter drops the request. The list is empty for
  every caller and every store.
\<close>

lemma filteredAcceptedReqs_empty: "filteredAcceptedReqs userId d = []"
  by (auto simp: filteredAcceptedReqs_def acceptedReqs_def FriendRequest_find_def populate_def
        filter_empty_conv find_None_iff)

text \<open>
  C2 does not hold of the code. In the store where Bob has accepted Alice's request the
  query finds that request, both parties have a record that an expansion without the match
  resolves, and yet the \<^verbatim>\<open>accepted\<close> list of the response is empty, for Alice and for
  Bob; as it is for every caller and store.
\<close>

theorem getFriendRequests_accepted_dropped:
  "filteredAcceptedReqs userId d = []
   \<and> FriendRequest_find (\<lambda>r. (sender r = alice \<and> status r = Accepted) \<or>
                            (recipient r = alice \<and> status r = Accepted)) db_friends =
     [request_doc req1 alice bob Accepted]
   \<and> populate (\<lambda>_. True) brief db_friends alice = Some (brief (member_doc alice ''Alice'' True [bob]))
   \<and> populate (\<lambda>_. True) brief db_friends bob = Some (brief (member_doc bob ''Bob'' True [alice]))
   \<and> populate (\<lambda>u. user_id u \<noteq> alice) brief db_friends alice = None
   \<and> response (getFriendRequests no_fault alice db_friends) = [(200, FriendRequests [] [])]
   \<and> response (getFriendRequests no_fault bob db_friends) = [(200, FriendRequests [] [])]"
proof -
  have "FriendRequest_find (\<lambda>r. (sender r = alice \<and> status r = Accepted) \<or>
                                 (recipient r = alice \<and> status r = Accepted)) db_friends =
          [request_doc req1 alice bob Accepted]
        \<and> populate (\<lambda>_. True) brief db_friends alice = Some (brief (member_doc alice ''Alice'' True [bob]))
        \<and> populate (\<lambda>_. True) brief db_friends bob = Some (brief (member_doc bob ''Bob'' True [alice]))
        \<and> populate (\<lambda>u. user_id u \<noteq> alice) brief db_friends alice = None
        \<and> response (getFriendRequests no_fault alice db_friends) = [(200, FriendRequests [] [])]
        \<and> response (getFriendRequests no_fault bob db_friends) = [(200, FriendRequests [] [])]"
    by (simp add: example_defs getFriendRequests_def store_defs world_defs Let_def incomingReqs_def
          acceptedReqs_def filteredAcceptedReqs_def)
  with filteredAcceptedReqs_empty[of userId d] show ?thesis by simp
qed

section \<open>The life of a request\<close>

lemma survives_nth:
  "survives rs rs' \<longleftrightarrow>
     length rs \<le> length rs' \<and>
     (\<forall>i<length rs. request_id (rs' ! i) = request_id (rs ! i) \<and> sender (rs' ! i) = sender (rs ! i) \<and>
        recipient (rs' ! i) = recipient (rs ! i) \<and>
        (status (rs ! i) = Accepted \<longrightarrow> status (rs' ! i) = Accepted))"
  by (auto simp: survives_def list_all2_conv_all_nth)

lemma survives_refl: "survives rs rs"
  by (simp add: survives_nth)

lemma survives_trans: "survives rs rs' \<Longrightarrow> survives rs' rs'' \<Longrightarrow> survives rs rs''"
  by (auto simp: survives_nth)

lemma lifecycle_step_survives: "lifecycle_step c rs rs' \<Longrightarrow> survives rs rs'"
  by (auto simp: lifecycle_step_def survives_nth nth_append nth_list_update)

lemma handle_lifecycle_step:
  "lifecycle_step c (requests d) (requests (committed (handle isValid c d)))"
proof (cases c)
  case (SendFriendRequest fault newId myId recipientId)
  have "status (new_request newId myId recipientId) = Pending"
    by (simp add: new_request_def default_status_def)
  with sendFriendRequest_committed[of isValid fault newId myId recipientId d] SendFriendRequest
  show ?thesis
    by (auto simp: lifecycle_step_def FriendRequest_insert_def)
next
  case (AcceptFriendRequest fault userId requestId)
  from acceptFriendRequest_committed[of isValid fault userId requestId d]
  show ?thesis
  proof
    assume "committed (acceptFriendRequest isValid fault userId requestId d) = d"
    with AcceptFriendRequest show ?thesis by (simp add: lifecycle_step_def)
  next
    assume "\<exists>fr. FriendRequest_findById requestId d = Some fr \<and> recipient fr = userId \<and>
         status fr = Pending \<and>
         committed (acceptFriendRequest isValid fault userId requestId d) = accept_effect fr d"
    then obtain fr where fr: "FriendRequest_findById requestId d = Some fr"
      "recipient fr = userId" "status fr = Pending"
      "committed (acceptFriendRequest isValid fault userId requestId d) = accept_effect fr d"
      by blast
    from accept_effect_requests[OF fr(1)] obtain i where
      i: "i < length (requests d)" "requests d ! i = fr"
         "requests (accept_effect fr d) = (requests d)[i := fr\<lparr>status := Accepted\<rparr>]"
      by blast
    have "\<exists>i. i < length (requests d) \<and> recipient (requests d ! i) = userId \<and>
            status (requests d ! i) = Pending \<and>
            requests (accept_effect fr d) = (requests d)[i := (requests d ! i)\<lparr>status := Accepted\<rparr>]"
      using i fr(2,3) by (intro exI[of _ i]) simp
    with AcceptFriendRequest fr(4) show ?thesis
      by (simp add: lifecycle_step_def)
  qed
qed (simp_all add: lifecycle_step_def read_only)

lemma run_survives: "survives (requests d) (requests (run isValid cs d))"
proof (induction cs arbitrary: d)
  case Nil
  show ?case by (simp add: survives_refl)
next
  case (Cons c cs)
  have "survives (requests d) (requests (committed (handle isValid c d)))"
    by (rule lifecycle_step_survives[OF handle_lifecycle_step])
  from survives_trans[OF this Cons.IH] show ?case by simp
qed

text \<open>
  C8. One call of the service leaves the collection of requests as it was, or adds one
  request with status pending (\<^verbatim>\<open>sendFriendRequest\<close>), or turns the status of one request
  from pending to accepted (\<^verbatim>\<open>acceptFriendRequest\<close> called by the recipient of that
  request); nothing else changes a status. Over every sequence of calls, from every store,
  each request stays stored at its place with its identity, sender and recipient, and a
  request that is accepted stays accepted: no request is deleted. The two transitions do
  occur: a request created with response 201 is stored with status pending, and an
  acceptance answered 200 found the request pending, with the caller as its recipient, and
  leaves it accepted.
\<close>

theorem request_lifecycle:
  "lifecycle_step c (requests d) (requests (committed (handle isValid c d)))
   \<and> survives (requests d) (requests (run isValid cs d))
   \<and> (c = SendFriendRequest fault newId myId recipientId \<and> canonical recipientId \<and>
        (\<exists>b. response (handle isValid c d) = [(201, b)]) \<longrightarrow>
        requests (committed (handle isValid c d)) =
          requests d @ [\<lparr>request_id = newId, sender = myId, recipient = recipientId,
                          status = Pending\<rparr>])
   \<and> (c = AcceptFriendRequest fault userId requestId \<and> canonical requestId \<and>
        response (handle isValid c d) = [(200, Message ''Request accepted'')] \<longrightarrow>
        (\<exists>fr. FriendRequest_findById requestId d = Some fr \<and> recipient fr = userId \<and>
              status fr = Pending \<and>
              FriendRequest_findById requestId (committed (handle isValid c d)) =
                Some (fr\<lparr>status := Accepted\<rparr>)))"
proof -
  have a: "requests (committed (sendFriendRequest isValid fault newId myId recipientId d)) =
             requests d @ [\<lparr>request_id = newId, sender = myId, recipient = recipientId,
                             status = Pending\<rparr>]"
    if "response (sendFriendRequest isValid fault newId myId recipientId d) = [(201, b)]" for b
    using that
    by (simp add: send_flat new_request_def default_status_def FriendRequest_insert_def
          split: option.splits if_splits)
  have 3: "c = SendFriendRequest fault newId myId recipientId \<and> canonical recipientId \<and>
        (\<exists>b. response (handle isValid c d) = [(201, b)]) \<longrightarrow>
        requests (committed (handle isValid c d)) =
          requests d @ [\<lparr>request_id = newId, sender = myId, recipient = recipientId,
                          status = Pending\<rparr>]"
  proof (intro impI, elim conjE exE)
    fix b
    assume "c = SendFriendRequest fault newId myId recipientId"
       and "response (handle isValid c d) = [(201, b)]"
    then show "requests (committed (handle isValid c d)) =
          requests d @ [\<lparr>request_id = newId, sender = myId, recipient = recipientId,
                          status = Pending\<rparr>]"
      using a[of b] by simp
  qed
  have 4: "c = AcceptFriendRequest fault userId requestId \<and> canonical requestId \<and>
        response (handle isValid c d) = [(200, Message ''Request accepted'')] \<longrightarrow>
        (\<exists>fr. FriendRequest_findById requestId d = Some fr \<and> recipient fr = userId \<and>
              status fr = Pending \<and>
              FriendRequest_findById requestId (committed (handle isValid c d)) =
                Some (fr\<lparr>status := Accepted\<rparr>))"
  proof (intro impI, elim conjE)
    assume c: "c = AcceptFriendRequest fault userId requestId"
       and r: "response (handle isValid c d) = [(200, Message ''Request accepted'')]"
    from c r have ok: "response (acceptFriendRequest isValid fault userId requestId d) =
                         [(200, Message ''Request accepted'')]"
      by simp
    then obtain fr where fr: "FriendRequest_findById requestId d = Some fr"
      "recipient fr = userId" "status fr = Pending"
      and nf: "isValid requestId" "\<not> fault 0" "\<not> fault 1" "\<not> fault 2" "\<not> fault 3" "\<not> fault 4"
      unfolding accept_cases by auto
    from accept_committed[where isValid = isValid and fault = fault, OF nf fr]
    have "committed (acceptFriendRequest isValid fault userId requestId d) = accept_effect fr d" .
    with accept_effect_request[OF fr(1)] c
    have "FriendRequest_findById requestId (committed (handle isValid c d)) =
            Some (fr\<lparr>status := Accepted\<rparr>)"
      by simp
    with fr show "\<exists>fr. FriendRequest_findById requestId d = Some fr \<and> recipient fr = userId \<and>
              status fr = Pending \<and>
              FriendRequest_findById requestId (committed (handle isValid c d)) =
                Some (fr\<lparr>status := Accepted\<rparr>)"
      by (intro exI[of _ fr]) simp
  qed
  show ?thesis
    by (rule conjI[OF handle_lifecycle_step conjI[OF run_survives conjI[OF 3 4]]])
qed

theorem request_lifecycle_witness:
  "requests (committed (handle hex24 (SendFriendRequest no_fault req1 alice bob) db_strangers)) =
     [request_doc req1 alice bob Pending]
   \<and> lifecycle_step (SendFriendRequest no_fault req1 alice bob) (requests db_strangers)
       [request_doc req1 alice bob Pending]
   \<and> response (handle hex24 (AcceptFriendRequest no_fault bob req1) db_pending) =
       [(200, Message ''Request accepted'')]
   \<and> requests (committed (handle hex24 (AcceptFriendRequest no_fault bob req1) db_pending)) =
       [request_doc req1 alice bob Accepted]
   \<and> lifecycle_step (AcceptFriendRequest no_fault bob req1) (requests db_pending)
       [request_doc req1 alice bob Accepted]
   \<and> requests (run hex24 [AcceptFriendRequest no_fault alice req1, AcceptFriendRequest no_fault bob req1,
                           AcceptFriendRequest no_fault bob req1, SendFriendRequest no_fault req2 bob alice,
                           GetFriendRequests no_fault alice, SendFriendRequest no_fault req2 carol alice]
                 db_pending) =
       [request_doc req1 alice bob Accepted, request_doc req2 carol alice Pending]
   \<and> survives (requests db_pending)
       [request_doc req1 alice bob Accepted, request_doc req2 carol alice Pending]"
proof -
  have k: "canonical bob" "canonical req1"
    by (simp_all add: example_defs)
  have r: "response (handle hex24 (SendFriendRequest no_fault req1 alice bob) db_strangers) =
             [(201, CreatedRequest (request_doc req1 alice bob Pending))]"
          "response (handle hex24 (AcceptFriendRequest no_fault bob req1) db_pending) =
             [(200, Message ''Request accepted'')]"
    by (simp_all add: send_flat accept_flat example_defs store_defs friends_of_def)
  have 3: "requests (run hex24 [AcceptFriendRequest no_fault alice req1, AcceptFriendRequest no_fault bob req1,
                           AcceptFriendRequest no_fault bob req1, SendFriendRequest no_fault req2 bob alice,
                           GetFriendRequests no_fault alice, SendFriendRequest no_fault req2 carol alice]
                 db_pending) =
       [request_doc req1 alice bob Accepted, request_doc req2 carol alice Pending]"
    by (simp add: sendFriendRequest_flat acceptFriendRequest_flat finished_def accept_effect_def
          read_only example_defs store_defs friends_of_def)
  note s = request_lifecycle[where c = "SendFriendRequest no_fault req1 alice bob" and d = db_strangers
             and isValid = hex24 and cs = "[]" and fault = no_fault and newId = req1 and myId = alice
             and recipientId = bob]
  from s k r(1)
  have 1: "requests (committed (handle hex24 (SendFriendRequest no_fault req1 alice bob) db_strangers)) =
             [request_doc req1 alice bob Pending]"
    by (simp add: request_doc_def db_strangers_def)
  from s have 4: "lifecycle_step (SendFriendRequest no_fault req1 alice bob) (requests db_strangers)
             [request_doc req1 alice bob Pending]"
    unfolding 1 by simp
  note t = request_lifecycle[where c = "AcceptFriendRequest no_fault bob req1" and d = db_pending
             and isValid = hex24 and fault = no_fault and userId = bob and requestId = req1
             and cs = "[AcceptFriendRequest no_fault alice req1, AcceptFriendRequest no_fault bob req1,
                        AcceptFriendRequest no_fault bob req1, SendFriendRequest no_fault req2 bob alice,
                        GetFriendRequests no_fault alice, SendFriendRequest no_fault req2 carol alice]"]
  from t k r(2)
  have "\<exists>fr. FriendRequest_findById req1 db_pending = Some fr \<and> recipient fr = bob \<and>
              status fr = Pending \<and>
              FriendRequest_findById req1
                (committed (handle hex24 (AcceptFriendRequest no_fault bob req1) db_pending)) =
                Some (fr\<lparr>status := Accepted\<rparr>)"
    by simp
  have 2: "requests (committed (handle hex24 (AcceptFriendRequest no_fault bob req1) db_pending)) =
             [request_doc req1 alice bob Accepted]"
    by (simp add: acceptFriendRequest_flat finished_def accept_effect_def example_defs store_defs)
  from t have 5: "lifecycle_step (AcceptFriendRequest no_fault bob req1) (requests db_pending)
             [request_doc req1 alice bob Accepted]
           \<and> survives (requests db_pending)
             [request_doc req1 alice bob Accepted, request_doc req2 carol alice Pending]"
    unfolding 2 3 by simp
  from 1 2 3 4 5 r(2) show ?thesis by simp
qed

section \<open>The theme store: initial value and round trip\<close>

text \<open>
  As stated, C10 fails for the empty string: it can be persisted (\<^verbatim>\<open>setTheme("")\<close>
  stores it), and the store created over it starts with "forest".
\<close>

theorem useThemeStore_initial_counterexample:
  "getItem [''ChatApp'' \<mapsto> ''''] ''ChatApp'' = Some ''''
   \<and> theme (useThemeStore [''ChatApp'' \<mapsto> '''']) = ''forest''
   \<and> localStorage (setTheme '''' (useThemeStore Map.empty)) = [''ChatApp'' \<mapsto> '''']"
  by (simp add: useThemeStore_def setTheme_def getItem_def setItem_def js_or_def)

text \<open>
  C10 (as amended). The initial theme is the value persisted under "ChatApp" when there is
  one and it is not the empty string, and "forest" otherwise; creating the store writes
  nothing. After \<^verbatim>\<open>setTheme(t)\<close> the store's theme is \<open>t\<close> and the value persisted under
  "ChatApp" is \<open>t\<close>, the other keys being untouched; a store created afterwards starts
  with \<open>t\<close> unless \<open>t\<close> is the empty string.
\<close>

theorem useThemeStore_round_trip:
  "(getItem ls ''ChatApp'' = Some v \<and> v \<noteq> [] \<longrightarrow> theme (useThemeStore ls) = v)
   \<and> (getItem ls ''ChatApp'' = None \<or> getItem ls ''ChatApp'' = Some [] \<longrightarrow>
        theme (useThemeStore ls) = ''forest'')
   \<and> localStorage (useThemeStore ls) = ls
   \<and> theme (setTheme t s) = t
   \<and> getItem (localStorage (setTheme t s)) ''ChatApp'' = Some t
   \<and> (k \<noteq> ''ChatApp'' \<longrightarrow> getItem (localStorage (setTheme t s)) k = getItem (localStorage s) k)
   \<and> (t \<noteq> [] \<longrightarrow> theme (useThemeStore (localStorage (setTheme t s))) = t)"
  by (auto simp add: useThemeStore_def setTheme_def getItem_def setItem_def js_or_def)

theorem useThemeStore_round_trip_witness:
  "theme (useThemeStore [''ChatApp'' \<mapsto> ''dark'']) = ''dark''
   \<and> theme (useThemeStore Map.empty) = ''forest''
   \<and> theme (useThemeStore [''ChatApp'' \<mapsto> '''']) = ''forest''
   \<and> theme (setTheme ''retro'' (useThemeStore Map.empty)) = ''retro''
   \<and> getItem (localStorage (setTheme ''retro'' (useThemeStore Map.empty))) ''ChatApp'' = Some ''retro''
   \<and> theme (useThemeStore (localStorage (setTheme ''retro'' (useThemeStore Map.empty)))) = ''retro''
   \<and> getItem (localStorage (setTheme ''retro'' (useThemeStore [''language'' \<mapsto> ''en'']))) ''language''
       = Some ''en''"
proof -
  have g: "getItem [''ChatApp'' \<mapsto> ''dark''] ''ChatApp'' = Some ''dark'' \<and> ''dark'' \<noteq> []"
          "getItem Map.empty ''ChatApp'' = None \<or> getItem Map.empty ''ChatApp'' = Some []"
          "getItem [''ChatApp'' \<mapsto> ''''] ''ChatApp'' = None \<or>
           getItem [''ChatApp'' \<mapsto> ''''] ''ChatApp'' = Some []"
          "''retro'' \<noteq> []"
    by (simp_all add: getItem_def)
  from useThemeStore_round_trip[where ls = "[''ChatApp'' \<mapsto> ''dark'']" and v = "''dark''"] g(1)
  have 1: "theme (useThemeStore [''ChatApp'' \<mapsto> ''dark'']) = ''dark''"
    by simp
  from useThemeStore_round_trip[where ls = "Map.empty"] g(2)
  have 2: "theme (useThemeStore Map.empty) = ''forest''"
    by simp
  from useThemeStore_round_trip[where ls = "[''ChatApp'' \<mapsto> '''']"] g(3)
  have 3: "theme (useThemeStore [''ChatApp'' \<mapsto> '''']) = ''forest''"
    by simp
  from useThemeStore_round_trip[where t = "''retro''" and s = "useThemeStore Map.empty"] g(4)
  have 4: "theme (setTheme ''retro'' (useThemeStore Map.empty)) = ''retro''
       \<and> getItem (localStorage (setTheme ''retro'' (useThemeStore Map.empty))) ''ChatApp'' = Some ''retro''
       \<and> theme (useThemeStore (localStorage (setTheme ''retro'' (useThemeStore Map.empty)))) = ''retro''"
    by simp
  have n: "''language'' \<noteq> ''ChatApp''"
    by simp
  from useThemeStore_round_trip[where t = "''retro''" and s = "useThemeStore [''language'' \<mapsto> ''en'']"
         and k = "''language''"] n
  have "getItem (localStorage (setTheme ''retro'' (useThemeStore [''language'' \<mapsto> ''en'']))) ''language''
          = getItem (localStorage (useThemeStore [''language'' \<mapsto> ''en''])) ''language''"
    by simp
  also have "\<dots> = Some ''en''"
    using useThemeStore_round_trip[where ls = "[''language'' \<mapsto> ''en'']"]
    by (simp add: getItem_def)
  finally have 5: "getItem (localStorage (setTheme ''retro'' (useThemeStore [''language'' \<mapsto> ''en'']))) ''language''
                     = Some ''en''" .
  from 1 2 3 4 5 show ?thesis by simp
qed

end
